theory Spec2Isabelle
  imports Main "HOL-Library.Word"
begin

unbundle bit_operations_syntax

section \<open>Python values, exceptions and text formatting\<close>

text \<open>
  An exception is its class name and the text \<open>str(e)\<close> gives for it.  The service
  formats exceptions only through \<open>f"{e}"\<close>, so nothing else of them is observed.
\<close>

datatype exn = Exn (exn_class: string) (exn_text: string)

text \<open>The argument types the service's type hints name: \<open>Union[str, int, bool]\<close>.\<close>

datatype pyval = VStr string | VInt int | VBool bool

text \<open>
  A Python float is its 64 bits.  Floats are only handed through (the coordinates of
  \<open>teleport_player\<close>); no arithmetic on them is modelled.
\<close>

type_synonym pyfloat = "64 word"

datatype arg = AStr string | AInt int | AFloat pyfloat

text \<open>
  \<open>str(n)\<close> for an integer, which is also what an f-string field \<open>{n}\<close> gives: decimal
  digits, a minus sign for negative numbers.  CPython refuses to convert an integer of more
  than 4300 digits and raises a \<open>ValueError\<close>.
\<close>

fun digit_chars :: "nat \<Rightarrow> string" where
  "digit_chars n =
     (if n < 10 then [char_of (48 + n)]
      else digit_chars (n div 10) @ [char_of (48 + n mod 10)])"

declare digit_chars.simps [simp del]

definition max_str_digits :: nat where
  "max_str_digits = 4300"

definition int_str_error :: exn where
  "int_str_error =
     Exn ''ValueError''
       (''Exceeds the limit (4300 digits) for integer string conversion; '' @
        ''use sys.set_int_max_str_digits() to increase the limit'')"

definition str_int :: "int \<Rightarrow> exn + string" where
  "str_int i =
     (if length (digit_chars (nat \<bar>i\<bar>)) > max_str_digits then Inl int_str_error
      else Inr (if i < 0 then CHR ''-'' # digit_chars (nat \<bar>i\<bar>) else digit_chars (nat \<bar>i\<bar>)))"

fun py_str :: "pyval \<Rightarrow> exn + string" where
  "py_str (VStr s) = Inr s"
| "py_str (VInt i) = str_int i"
| "py_str (VBool b) = Inr (if b then ''True'' else ''False'')"

text \<open>
  \<open>str.lower()\<close>.  A character of the model is a code point below 256; among these
  Python lower-cases the letters A to Z and the Latin-1 capitals U+00C0 to U+00DE other than
  the multiplication sign U+00D7, each to the code point 32 above it, and keeps the rest.
\<close>

definition lower_char :: "char \<Rightarrow> char" where
  "lower_char c =
     (if (65 \<le> (of_char c :: nat) \<and> (of_char c :: nat) \<le> 90)
         \<or> (192 \<le> (of_char c :: nat) \<and> (of_char c :: nat) \<le> 222 \<and> (of_char c :: nat) \<noteq> 215)
      then char_of ((of_char c :: nat) + 32) else c)"

definition lower :: "string \<Rightarrow> string" where
  "lower s = map lower_char s"

definition apostrophe :: char where
  "apostrophe = CHR 0x27"

definition quote :: char where
  "quote = CHR 0x22"

text \<open>What Python raises for \<open>None.name\<close>.\<close>

definition attribute_error :: "string \<Rightarrow> exn" where
  "attribute_error name =
     Exn ''AttributeError''
       ([apostrophe] @ ''NoneType'' @ [apostrophe] @ '' object has no attribute ''
          @ [apostrophe] @ name @ [apostrophe])"

definition not_connected_error :: exn where
  "not_connected_error = Exn ''RuntimeError'' ''Not connected. Call connect() first.''"

section \<open>The client library\<close>

text \<open>
  \<open>mcipc.rcon.je.Client\<close> is an external library.  It is a parameter of the model: a
  record of functions over a client state \<open>'c\<close> chosen by the library.  Every method
  returns its result or the \<open>Exception\<close> it raised, and the client as it is afterwards
  (a raising call may have changed it).  The methods are typed as the service uses them:
  the results of \<open>connect\<close>, \<open>login\<close> and \<open>close\<close> are dropped, \<open>run\<close> and the
  command helpers (\<open>kick\<close>, \<open>ban\<close>, \<open>say\<close>, ...) yield the text the service returns
  as \<open>str\<close>, and \<open>list()\<close> yields an object read through \<open>.players\<close> and \<open>.max\<close>.
\<close>

record list_result =
  players :: "string list"
  max_players :: int

record 'c client_lib =
  new_Client :: "string \<Rightarrow> int \<Rightarrow> exn + 'c"
  cl_connect :: "'c \<Rightarrow> (exn + unit) \<times> 'c"
  cl_login :: "string \<Rightarrow> 'c \<Rightarrow> (exn + unit) \<times> 'c"
  cl_close :: "'c \<Rightarrow> (exn + unit) \<times> 'c"
  cl_run :: "string \<Rightarrow> 'c \<Rightarrow> (exn + string) \<times> 'c"
  cl_list :: "'c \<Rightarrow> (exn + list_result) \<times> 'c"
  cl_command :: "string \<Rightarrow> arg list \<Rightarrow> 'c \<Rightarrow> (exn + string) \<times> 'c"

text \<open>A call made on the library: the method's name and its arguments.\<close>

datatype call = Call (call_name: string) (call_args: "arg list")

datatype level = DEBUG | INFO | ERROR

section \<open>The service of \<open>rcon_service/RCONService.py\<close>\<close>

text \<open>
  The fields of the object (\<open>connected\<close> is \<open>_connected\<close>), the records handed to
  \<open>self.logger\<close> in order, and the calls made on the library in order.  A \<open>Client\<close>
  object is truthy, so \<open>not self.client\<close> is \<open>self.client is None\<close>.
\<close>

record 'c service =
  server :: string
  port :: int
  password :: string
  client :: "'c option"
  connected :: bool
  logged :: "(level \<times> string) list"
  calls :: "call list"

definition init :: "string \<Rightarrow> int \<Rightarrow> string \<Rightarrow> 'c service" where
  "init srv prt pw =
     \<lparr>server = srv, port = prt, password = pw, client = None, connected = False,
      logged = [], calls = []\<rparr>"

definition log_to :: "level \<Rightarrow> string \<Rightarrow> 'c service \<Rightarrow> 'c service" where
  "log_to lv text s = s\<lparr>logged := logged s @ [(lv, text)]\<rparr>"

text \<open>\<open>self.client.name(args)\<close>: an \<open>AttributeError\<close> on \<open>None\<close>, the library's method otherwise.\<close>

definition invoke ::
  "('c \<Rightarrow> (exn + 'a) \<times> 'c) \<Rightarrow> call \<Rightarrow> 'c service \<Rightarrow> (exn + 'a) \<times> 'c service" where
  "invoke m cl s =
     (case client s of
        None \<Rightarrow> (Inl (attribute_error (call_name cl)), s)
      | Some c \<Rightarrow>
          (case m c of (r, c') \<Rightarrow> (r, s\<lparr>client := Some c', calls := calls s @ [cl]\<rparr>)))"

text \<open>
  The \<open>except Exception as e\<close> branch of \<open>connect\<close>.  Its first statement formats the
  port; when that raises, the \<open>ValueError\<close> leaves the handler before anything is logged and
  before the flag is cleared.
\<close>

definition connect_failed :: "exn \<Rightarrow> 'c service \<Rightarrow> (exn + bool) \<times> 'c service" where
  "connect_failed e s =
     (case str_int (port s) of
        Inl ve \<Rightarrow> (Inl ve, s)
      | Inr pt \<Rightarrow>
          (Inl (Exn ''ConnectionError'' (''Failed to connect to RCON server: '' @ exn_text e)),
           (log_to ERROR
              (''Failed to connect to '' @ server s @ '':'' @ pt @ '': '' @ exn_text e)
              s)\<lparr>connected := False\<rparr>))"

text \<open>
  \<open>connect\<close>.  The flag is set before the success message is formatted, inside the
  \<open>try\<close>; a \<open>ValueError\<close> from that f-string is caught by the handler like an exception
  of the library.
\<close>

definition connect :: "'c client_lib \<Rightarrow> 'c service \<Rightarrow> (exn + bool) \<times> 'c service" where
  "connect lib s =
     (let s0 = s\<lparr>calls := calls s @ [Call ''Client'' [AStr (server s), AInt (port s)]]\<rparr> in
      case new_Client lib (server s) (port s) of
        Inl e \<Rightarrow> connect_failed e s0
      | Inr c \<Rightarrow>
          (case invoke (cl_connect lib) (Call ''connect'' []) (s0\<lparr>client := Some c\<rparr>) of
             (Inl e, s1) \<Rightarrow> connect_failed e s1
           | (Inr _, s1) \<Rightarrow>
               (case invoke (cl_login lib (password s1))
                       (Call ''login'' [AStr (password s1)]) s1 of
                  (Inl e, s2) \<Rightarrow> connect_failed e s2
                | (Inr _, s2) \<Rightarrow>
                    (case str_int (port s2) of
                       Inl ve \<Rightarrow> connect_failed ve (s2\<lparr>connected := True\<rparr>)
                     | Inr pt \<Rightarrow>
                         (Inr True,
                          log_to INFO
                            (''Successfully connected to '' @ server s2 @ '':'' @ pt)
                            (s2\<lparr>connected := True\<rparr>))))))"

definition disconnect :: "'c client_lib \<Rightarrow> 'c service \<Rightarrow> (exn + unit) \<times> 'c service" where
  "disconnect lib s =
     (if client s \<noteq> None \<and> connected s then
        (case invoke (cl_close lib) (Call ''close'' []) s of
           (Inr _, s1) \<Rightarrow>
             (Inr (), log_to INFO ''Disconnected from RCON server'' (s1\<lparr>connected := False\<rparr>))
         | (Inl e, s1) \<Rightarrow>
             (Inr (), log_to ERROR (''Error during disconnect: '' @ exn_text e) s1))
      else (Inr (), s))"

definition ensure_connected :: "'c service \<Rightarrow> exn + unit" where
  "ensure_connected s =
     (if client s = None \<or> \<not> connected s then Inl not_connected_error else Inr ())"

definition send_command ::
  "'c client_lib \<Rightarrow> string \<Rightarrow> 'c service \<Rightarrow> (exn + string) \<times> 'c service" where
  "send_command lib command s =
     (case ensure_connected s of
        Inl e \<Rightarrow> (Inl e, s)
      | Inr _ \<Rightarrow>
          (case invoke (cl_run lib command) (Call ''run'' [AStr command]) s of
             (Inr response, s1) \<Rightarrow>
               (Inr response,
                log_to DEBUG (''Command: '' @ command @ '' | Response: '' @ response) s1)
           | (Inl e, s1) \<Rightarrow>
               (Inl e, log_to ERROR (''Command execution failed: '' @ exn_text e) s1)))"

definition is_connected :: "'c service \<Rightarrow> bool" where
  "is_connected s \<longleftrightarrow> connected s \<and> client s \<noteq> None"


text \<open>\<open>self._ensure_connected()\<close> followed by the rest of a method's body.\<close>

definition guarded ::
  "('c service \<Rightarrow> (exn + 'a) \<times> 'c service) \<Rightarrow> 'c service \<Rightarrow> (exn + 'a) \<times> 'c service" where
  "guarded body s = (case ensure_connected s of Inl e \<Rightarrow> (Inl e, s) | Inr _ \<Rightarrow> body s)"

text \<open>\<open>self.client.name(*args)\<close> for one of the library's command helpers.\<close>

definition client_call ::
  "'c client_lib \<Rightarrow> string \<Rightarrow> arg list \<Rightarrow> 'c service \<Rightarrow> (exn + string) \<times> 'c service" where
  "client_call lib name args = invoke (cl_command lib name args) (Call name args)"

subsection \<open>Player management\<close>

definition get_player_list ::
  "'c client_lib \<Rightarrow> 'c service \<Rightarrow> (exn + string list) \<times> 'c service" where
  "get_player_list lib =
     guarded (\<lambda>s. case invoke (cl_list lib) (Call ''list'' []) s of
                     (Inl e, s1) \<Rightarrow> (Inl e, s1)
                   | (Inr r, s1) \<Rightarrow> (Inr (players r), s1))"

definition get_player_count ::
  "'c client_lib \<Rightarrow> 'c service \<Rightarrow> (exn + int \<times> int) \<times> 'c service" where
  "get_player_count lib =
     guarded (\<lambda>s. case invoke (cl_list lib) (Call ''list'' []) s of
                     (Inl e, s1) \<Rightarrow> (Inl e, s1)
                   | (Inr r, s1) \<Rightarrow> (Inr (int (length (players r)), max_players r), s1))"

text \<open>The default of \<open>reason\<close> is \<open>"Kicked by admin"\<close>, of \<open>ban_player\<close> \<open>"Banned by admin"\<close>.\<close>

definition kick_player ::
  "'c client_lib \<Rightarrow> string \<Rightarrow> string \<Rightarrow> 'c service \<Rightarrow> (exn + string) \<times> 'c service" where
  "kick_player lib player reason = guarded (client_call lib ''kick'' [AStr player, AStr reason])"

definition ban_player ::
  "'c client_lib \<Rightarrow> string \<Rightarrow> string \<Rightarrow> 'c service \<Rightarrow> (exn + string) \<times> 'c service" where
  "ban_player lib player reason = guarded (client_call lib ''ban'' [AStr player, AStr reason])"

definition pardon_player ::
  "'c client_lib \<Rightarrow> string \<Rightarrow> 'c service \<Rightarrow> (exn + string) \<times> 'c service" where
  "pardon_player lib player = guarded (client_call lib ''pardon'' [AStr player])"

definition op_player ::
  "'c client_lib \<Rightarrow> string \<Rightarrow> 'c service \<Rightarrow> (exn + string) \<times> 'c service" where
  "op_player lib player = guarded (client_call lib ''op'' [AStr player])"

definition deop_player ::
  "'c client_lib \<Rightarrow> string \<Rightarrow> 'c service \<Rightarrow> (exn + string) \<times> 'c service" where
  "deop_player lib player = guarded (client_call lib ''deop'' [AStr player])"

definition whitelist_add ::
  "'c client_lib \<Rightarrow> string \<Rightarrow> 'c service \<Rightarrow> (exn + string) \<times> 'c service" where
  "whitelist_add lib player = guarded (client_call lib ''whitelist'' [AStr ''add'', AStr player])"

definition whitelist_remove ::
  "'c client_lib \<Rightarrow> string \<Rightarrow> 'c service \<Rightarrow> (exn + string) \<times> 'c service" where
  "whitelist_remove lib player =
     guarded (client_call lib ''whitelist'' [AStr ''remove'', AStr player])"

definition whitelist_list :: "'c client_lib \<Rightarrow> 'c service \<Rightarrow> (exn + string) \<times> 'c service" where
  "whitelist_list lib = guarded (client_call lib ''whitelist'' [AStr ''list''])"

definition whitelist_on :: "'c client_lib \<Rightarrow> 'c service \<Rightarrow> (exn + string) \<times> 'c service" where
  "whitelist_on lib = guarded (client_call lib ''whitelist'' [AStr ''on''])"

definition whitelist_off :: "'c client_lib \<Rightarrow> 'c service \<Rightarrow> (exn + string) \<times> 'c service" where
  "whitelist_off lib = guarded (client_call lib ''whitelist'' [AStr ''off''])"

definition whitelist_reload :: "'c client_lib \<Rightarrow> 'c service \<Rightarrow> (exn + string) \<times> 'c service" where
  "whitelist_reload lib = guarded (client_call lib ''whitelist'' [AStr ''reload''])"

subsection \<open>Server management\<close>

definition stop_server :: "'c client_lib \<Rightarrow> 'c service \<Rightarrow> (exn + string) \<times> 'c service" where
  "stop_server lib = guarded (client_call lib ''stop'' [])"

text \<open>The default of \<open>flush\<close> is \<open>True\<close>.\<close>

definition save_all ::
  "'c client_lib \<Rightarrow> bool \<Rightarrow> 'c service \<Rightarrow> (exn + string) \<times> 'c service" where
  "save_all lib flush =
     guarded (send_command lib (if flush then ''save-all flush'' else ''save-all''))"

definition save_on :: "'c client_lib \<Rightarrow> 'c service \<Rightarrow> (exn + string) \<times> 'c service" where
  "save_on lib = guarded (send_command lib ''save-on'')"

definition save_off :: "'c client_lib \<Rightarrow> 'c service \<Rightarrow> (exn + string) \<times> 'c service" where
  "save_off lib = guarded (send_command lib ''save-off'')"

definition reload_server :: "'c client_lib \<Rightarrow> 'c service \<Rightarrow> (exn + string) \<times> 'c service" where
  "reload_server lib = guarded (send_command lib ''reload'')"

subsection \<open>Communication\<close>

definition broadcast_message ::
  "'c client_lib \<Rightarrow> string \<Rightarrow> 'c service \<Rightarrow> (exn + string) \<times> 'c service" where
  "broadcast_message lib message = guarded (client_call lib ''say'' [AStr message])"

definition tell_player ::
  "'c client_lib \<Rightarrow> string \<Rightarrow> string \<Rightarrow> 'c service \<Rightarrow> (exn + string) \<times> 'c service" where
  "tell_player lib player message =
     guarded (client_call lib ''tell'' [AStr player, AStr message])"

text \<open>The JSON text component \<open>{"text":"t","color":"c"}\<close> of the two f-strings.\<close>

definition text_component :: "string \<Rightarrow> string \<Rightarrow> string" where
  "text_component t c =
     ''{'' @ [quote] @ ''text'' @ [quote] @ '':'' @ [quote] @ t @ [quote] @ '','' @
     [quote] @ ''color'' @ [quote] @ '':'' @ [quote] @ c @ [quote] @ ''}''"

text \<open>The default of \<open>subtitle\<close> is the empty string, which is falsy.\<close>

definition send_title ::
  "'c client_lib \<Rightarrow> string \<Rightarrow> string \<Rightarrow> string \<Rightarrow> 'c service \<Rightarrow> (exn + string) \<times> 'c service" where
  "send_title lib player title subtitle =
     guarded
       (if subtitle \<noteq> [] then
          send_command lib
            (''title '' @ player @ '' title '' @ text_component title ''gold'' @ '' ''
               @ text_component subtitle ''yellow'')
        else send_command lib (''title '' @ player @ '' title '' @ text_component title ''gold''))"

subsection \<open>World management\<close>

text \<open>\<open>str(time)\<close> is evaluated after the guard and before the call; it may raise.\<close>

definition set_time ::
  "'c client_lib \<Rightarrow> pyval \<Rightarrow> 'c service \<Rightarrow> (exn + string) \<times> 'c service" where
  "set_time lib time =
     guarded (\<lambda>s. case py_str time of
                     Inl e \<Rightarrow> (Inl e, s)
                   | Inr t \<Rightarrow> client_call lib ''time'' [AStr ''set'', AStr t] s)"

definition add_time ::
  "'c client_lib \<Rightarrow> int \<Rightarrow> 'c service \<Rightarrow> (exn + string) \<times> 'c service" where
  "add_time lib time =
     guarded (\<lambda>s. case str_int time of
                     Inl e \<Rightarrow> (Inl e, s)
                   | Inr t \<Rightarrow> client_call lib ''time'' [AStr ''add'', AStr t] s)"

definition get_time :: "'c client_lib \<Rightarrow> 'c service \<Rightarrow> (exn + string) \<times> 'c service" where
  "get_time lib = guarded (client_call lib ''time'' [AStr ''query'', AStr ''gametime''])"

text \<open>The default of \<open>duration\<close> is 300.\<close>

definition set_weather ::
  "'c client_lib \<Rightarrow> string \<Rightarrow> int \<Rightarrow> 'c service \<Rightarrow> (exn + string) \<times> 'c service" where
  "set_weather lib weather duration =
     guarded (client_call lib ''weather'' [AStr weather, AInt duration])"

definition set_difficulty ::
  "'c client_lib \<Rightarrow> string \<Rightarrow> 'c service \<Rightarrow> (exn + string) \<times> 'c service" where
  "set_difficulty lib difficulty = guarded (client_call lib ''difficulty'' [AStr difficulty])"

definition set_gamemode ::
  "'c client_lib \<Rightarrow> string \<Rightarrow> string \<Rightarrow> 'c service \<Rightarrow> (exn + string) \<times> 'c service" where
  "set_gamemode lib player gamemode =
     guarded (client_call lib ''gamemode'' [AStr gamemode, AStr player])"

definition teleport_player ::
  "'c client_lib \<Rightarrow> string \<Rightarrow> pyfloat \<Rightarrow> pyfloat \<Rightarrow> pyfloat \<Rightarrow> 'c service
     \<Rightarrow> (exn + string) \<times> 'c service" where
  "teleport_player lib player x y z =
     guarded (client_call lib ''tp'' [AStr player, AFloat x, AFloat y, AFloat z])"

definition teleport_player_to_player ::
  "'c client_lib \<Rightarrow> string \<Rightarrow> string \<Rightarrow> 'c service \<Rightarrow> (exn + string) \<times> 'c service" where
  "teleport_player_to_player lib player target =
     guarded (client_call lib ''tp'' [AStr player, AStr target])"

text \<open>The default of \<open>count\<close> is 1.\<close>

definition give_item ::
  "'c client_lib \<Rightarrow> string \<Rightarrow> string \<Rightarrow> int \<Rightarrow> 'c service \<Rightarrow> (exn + string) \<times> 'c service" where
  "give_item lib player item count =
     guarded (client_call lib ''give'' [AStr player, AStr item, AInt count])"

text \<open>
  \<open>item\<close> and \<open>count\<close> are optional (default \<open>None\<close>); \<open>None\<close>, the empty string and 0
  are falsy.
\<close>

definition truthy_str :: "string option \<Rightarrow> bool" where
  "truthy_str x = (case x of None \<Rightarrow> False | Some t \<Rightarrow> t \<noteq> [])"

definition truthy_int :: "int option \<Rightarrow> bool" where
  "truthy_int x = (case x of None \<Rightarrow> False | Some n \<Rightarrow> n \<noteq> 0)"

definition clear_player_inventory ::
  "'c client_lib \<Rightarrow> string \<Rightarrow> string option \<Rightarrow> int option \<Rightarrow> 'c service
     \<Rightarrow> (exn + string) \<times> 'c service" where
  "clear_player_inventory lib player item count =
     guarded
       (if truthy_str item \<and> truthy_int count then
          client_call lib ''clear'' [AStr player, AStr (the item), AInt (the count)]
        else if truthy_str item then client_call lib ''clear'' [AStr player, AStr (the item)]
        else client_call lib ''clear'' [AStr player])"

subsection \<open>Server information\<close>

definition get_server_version :: "'c client_lib \<Rightarrow> 'c service \<Rightarrow> (exn + string) \<times> 'c service" where
  "get_server_version lib = guarded (send_command lib ''version'')"

definition get_tps :: "'c client_lib \<Rightarrow> 'c service \<Rightarrow> (exn + string) \<times> 'c service" where
  "get_tps lib = guarded (send_command lib ''tps'')"

definition get_seed :: "'c client_lib \<Rightarrow> 'c service \<Rightarrow> (exn + string) \<times> 'c service" where
  "get_seed lib = guarded (client_call lib ''seed'' [])"

subsection \<open>Advanced features\<close>

definition execute_as_player ::
  "'c client_lib \<Rightarrow> string \<Rightarrow> string \<Rightarrow> 'c service \<Rightarrow> (exn + string) \<times> 'c service" where
  "execute_as_player lib player command =
     guarded (send_command lib (''execute as '' @ player @ '' run '' @ command))"

definition set_spawn_protection ::
  "'c client_lib \<Rightarrow> int \<Rightarrow> 'c service \<Rightarrow> (exn + string) \<times> 'c service" where
  "set_spawn_protection lib radius =
     guarded (\<lambda>s. case str_int radius of
                     Inl e \<Rightarrow> (Inl e, s)
                   | Inr t \<Rightarrow> send_command lib (''gamerule spawnRadius '' @ t) s)"

definition set_gamerule ::
  "'c client_lib \<Rightarrow> string \<Rightarrow> pyval \<Rightarrow> 'c service \<Rightarrow> (exn + string) \<times> 'c service" where
  "set_gamerule lib rule v =
     guarded (\<lambda>s. case py_str v of
                     Inl e \<Rightarrow> (Inl e, s)
                   | Inr t \<Rightarrow> send_command lib (''gamerule '' @ rule @ '' '' @ lower t) s)"

definition get_gamerule ::
  "'c client_lib \<Rightarrow> string \<Rightarrow> 'c service \<Rightarrow> (exn + string) \<times> 'c service" where
  "get_gamerule lib rule = guarded (send_command lib (''gamerule '' @ rule))"


subsection \<open>Running operations in sequence\<close>

text \<open>
  One constructor per public method; \<open>apply_op\<close> is the state a call leaves behind.
  The context-manager methods (\<open>connection\<close>, \<open>__enter__\<close>, \<open>__exit__\<close>) only call
  \<open>connect\<close> and \<open>disconnect\<close>, and \<open>__repr__\<close> only reads fields; they have no
  constructor of their own.
\<close>

datatype (plugins del: transfer lifting) op =
    Connect | Disconnect | Send_command string | Is_connected
  | Get_player_list | Get_player_count
  | Kick_player string string | Ban_player string string | Pardon_player string
  | Op_player string | Deop_player string
  | Whitelist_add string | Whitelist_remove string | Whitelist_list
  | Whitelist_on | Whitelist_off | Whitelist_reload
  | Stop_server | Save_all bool | Save_on | Save_off | Reload_server
  | Broadcast_message string | Tell_player string string | Send_title string string string
  | Set_time pyval | Add_time int | Get_time | Set_weather string int
  | Set_difficulty string | Set_gamemode string string
  | Teleport_player string pyfloat pyfloat pyfloat | Teleport_player_to_player string string
  | Give_item string string int | Clear_player_inventory string "string option" "int option"
  | Get_server_version | Get_tps | Get_seed
  | Execute_as_player string string | Set_spawn_protection int
  | Set_gamerule string pyval | Get_gamerule string

primrec apply_op :: "'c client_lib \<Rightarrow> op \<Rightarrow> 'c service \<Rightarrow> 'c service" where
  "apply_op lib Connect s = snd (connect lib s)"
| "apply_op lib Disconnect s = snd (disconnect lib s)"
| "apply_op lib (Send_command c) s = snd (send_command lib c s)"
| "apply_op lib Is_connected s = s"
| "apply_op lib Get_player_list s = snd (get_player_list lib s)"
| "apply_op lib Get_player_count s = snd (get_player_count lib s)"
| "apply_op lib (Kick_player p r) s = snd (kick_player lib p r s)"
| "apply_op lib (Ban_player p r) s = snd (ban_player lib p r s)"
| "apply_op lib (Pardon_player p) s = snd (pardon_player lib p s)"
| "apply_op lib (Op_player p) s = snd (op_player lib p s)"
| "apply_op lib (Deop_player p) s = snd (deop_player lib p s)"
| "apply_op lib (Whitelist_add p) s = snd (whitelist_add lib p s)"
| "apply_op lib (Whitelist_remove p) s = snd (whitelist_remove lib p s)"
| "apply_op lib Whitelist_list s = snd (whitelist_list lib s)"
| "apply_op lib Whitelist_on s = snd (whitelist_on lib s)"
| "apply_op lib Whitelist_off s = snd (whitelist_off lib s)"
| "apply_op lib Whitelist_reload s = snd (whitelist_reload lib s)"
| "apply_op lib Stop_server s = snd (stop_server lib s)"
| "apply_op lib (Save_all f) s = snd (save_all lib f s)"
| "apply_op lib Save_on s = snd (save_on lib s)"
| "apply_op lib Save_off s = snd (save_off lib s)"
| "apply_op lib Reload_server s = snd (reload_server lib s)"
| "apply_op lib (Broadcast_message m) s = snd (broadcast_message lib m s)"
| "apply_op lib (Tell_player p m) s = snd (tell_player lib p m s)"
| "apply_op lib (Send_title p t u) s = snd (send_title lib p t u s)"
| "apply_op lib (Set_time v) s = snd (set_time lib v s)"
| "apply_op lib (Add_time n) s = snd (add_time lib n s)"
| "apply_op lib Get_time s = snd (get_time lib s)"
| "apply_op lib (Set_weather w d) s = snd (set_weather lib w d s)"
| "apply_op lib (Set_difficulty d) s = snd (set_difficulty lib d s)"
| "apply_op lib (Set_gamemode p g) s = snd (set_gamemode lib p g s)"
| "apply_op lib (Teleport_player p x y z) s = snd (teleport_player lib p x y z s)"
| "apply_op lib (Teleport_player_to_player p q) s = snd (teleport_player_to_player lib p q s)"
| "apply_op lib (Give_item p i n) s = snd (give_item lib p i n s)"
| "apply_op lib (Clear_player_inventory p i n) s = snd (clear_player_inventory lib p i n s)"
| "apply_op lib Get_server_version s = snd (get_server_version lib s)"
| "apply_op lib Get_tps s = snd (get_tps lib s)"
| "apply_op lib Get_seed s = snd (get_seed lib s)"
| "apply_op lib (Execute_as_player p c) s = snd (execute_as_player lib p c s)"
| "apply_op lib (Set_spawn_protection r) s = snd (set_spawn_protection lib r s)"
| "apply_op lib (Set_gamerule r v) s = snd (set_gamerule lib r v s)"
| "apply_op lib (Get_gamerule r) s = snd (get_gamerule lib r s)"

fun run_ops :: "'c client_lib \<Rightarrow> op list \<Rightarrow> 'c service \<Rightarrow> 'c service" where
  "run_ops lib [] s = s"
| "run_ops lib (x # xs) s = run_ops lib xs (apply_op lib x s)"

text \<open>Whether \<open>self.client.close()\<close> would raise in this state.\<close>

definition close_raises :: "'c client_lib \<Rightarrow> 'c service \<Rightarrow> bool" where
  "close_raises lib s =
     (case client s of None \<Rightarrow> False | Some c \<Rightarrow> isl (fst (cl_close lib c)))"

text \<open>
  The first exception the library raises during \<open>Client(...)\<close>, \<open>connect()\<close> and
  \<open>login(password)\<close>, if any: the underlying reason of a failed connect.
\<close>

definition library_failure :: "'c client_lib \<Rightarrow> 'c service \<Rightarrow> exn option" where
  "library_failure lib s =
     (case new_Client lib (server s) (port s) of
        Inl e \<Rightarrow> Some e
      | Inr c \<Rightarrow>
          (case cl_connect lib c of
             (Inl e, c1) \<Rightarrow> Some e
           | (Inr _, c1) \<Rightarrow>
               (case cl_login lib (password s) c1 of
                  (Inl e, c2) \<Rightarrow> Some e
                | (Inr _, c2) \<Rightarrow> None)))"

section \<open>The minimal service of \<open>rcon/RCONService.py\<close>\<close>

text \<open>The same class name with four fields, no connected flag and no logger.\<close>

record 'c service_min =
  m_server :: string
  m_port :: int
  m_password :: string
  m_client :: "'c option"
  m_calls :: "call list"

definition min_init :: "string \<Rightarrow> int \<Rightarrow> string \<Rightarrow> 'c service_min" where
  "min_init srv prt pw =
     \<lparr>m_server = srv, m_port = prt, m_password = pw, m_client = None, m_calls = []\<rparr>"

definition min_invoke ::
  "('c \<Rightarrow> (exn + 'a) \<times> 'c) \<Rightarrow> call \<Rightarrow> 'c service_min \<Rightarrow> (exn + 'a) \<times> 'c service_min" where
  "min_invoke m cl s =
     (case m_client s of
        None \<Rightarrow> (Inl (attribute_error (call_name cl)), s)
      | Some c \<Rightarrow>
          (case m c of (r, c') \<Rightarrow> (r, s\<lparr>m_client := Some c', m_calls := m_calls s @ [cl]\<rparr>)))"

definition min_connect :: "'c client_lib \<Rightarrow> 'c service_min \<Rightarrow> (exn + unit) \<times> 'c service_min" where
  "min_connect lib s =
     (let s0 = s\<lparr>m_calls := m_calls s @ [Call ''Client'' [AStr (m_server s), AInt (m_port s)]]\<rparr> in
      case new_Client lib (m_server s) (m_port s) of
        Inl e \<Rightarrow> (Inl e, s0)
      | Inr c \<Rightarrow>
          (case min_invoke (cl_connect lib) (Call ''connect'' []) (s0\<lparr>m_client := Some c\<rparr>) of
             (Inl e, s1) \<Rightarrow> (Inl e, s1)
           | (Inr _, s1) \<Rightarrow>
               min_invoke (cl_login lib (m_password s1))
                 (Call ''login'' [AStr (m_password s1)]) s1))"

definition min_send_command ::
  "'c client_lib \<Rightarrow> string \<Rightarrow> 'c service_min \<Rightarrow> (exn + string) \<times> 'c service_min" where
  "min_send_command lib command s =
     (if m_client s = None then (Inl not_connected_error, s)
      else min_invoke (cl_run lib command) (Call ''run'' [AStr command]) s)"

definition min_get_player_list ::
  "'c client_lib \<Rightarrow> 'c service_min \<Rightarrow> (exn + string list) \<times> 'c service_min" where
  "min_get_player_list lib s =
     (case min_invoke (cl_list lib) (Call ''list'' []) s of
        (Inl e, s1) \<Rightarrow> (Inl e, s1)
      | (Inr r, s1) \<Rightarrow> (Inr (players r), s1))"

datatype op_min = Min_connect | Min_send_command string | Min_get_player_list

primrec min_apply_op :: "'c client_lib \<Rightarrow> op_min \<Rightarrow> 'c service_min \<Rightarrow> 'c service_min" where
  "min_apply_op lib Min_connect s = snd (min_connect lib s)"
| "min_apply_op lib (Min_send_command c) s = snd (min_send_command lib c s)"
| "min_apply_op lib Min_get_player_list s = snd (min_get_player_list lib s)"

section \<open>A stand-in library for concrete runs\<close>

text \<open>
  A client is the number of \<open>close()\<close> calls made on it; the first \<open>k\<close> of them raise.
  The server accepts one password and answers every command with its text.
\<close>

fun arg_text :: "arg \<Rightarrow> string" where
  "arg_text (AStr t) = t"
| "arg_text (AInt i) = (case str_int i of Inl e \<Rightarrow> ''?'' | Inr t \<Rightarrow> t)"
| "arg_text (AFloat x) = ''?''"

definition fake_lib :: "nat \<Rightarrow> nat client_lib" where
  "fake_lib k =
     \<lparr>new_Client = (\<lambda>h p. Inr 0),
      cl_connect = (\<lambda>c. (Inr (), c)),
      cl_login = (\<lambda>pw c. if pw = ''Hatsune_Miku'' then (Inr (), c)
                          else (Inl (Exn ''WrongPassword'' ''wrong password''), c)),
      cl_close = (\<lambda>c. if c < k then (Inl (Exn ''OSError'' ''socket error''), Suc c)
                       else (Inr (), Suc c)),
      cl_run = (\<lambda>cmd c. (Inr (''Executed: '' @ cmd), c)),
      cl_list = (\<lambda>c. (Inr \<lparr>players = [''Steve'', ''Alex''], max_players = 20\<rparr>, c)),
      cl_command = (\<lambda>name args c.
         (Inr (''Executed: '' @ name @ concat (map (\<lambda>a. '' '' @ arg_text a) args)), c))\<rparr>"

text \<open>The service after a successful connect to the stand-in server.\<close>

definition fake_ready :: "nat service" where
  "fake_ready =
     \<lparr>server = ''127.0.0.1'', port = 25575, password = ''Hatsune_Miku'',
      client = Some 0, connected = True,
      logged = [(INFO, ''Successfully connected to 127.0.0.1:25575'')],
      calls = [Call ''Client'' [AStr ''127.0.0.1'', AInt 25575], Call ''connect'' [],
               Call ''login'' [AStr ''Hatsune_Miku'']]\<rparr>"

text \<open>
  The same service after one \<open>disconnect\<close> whose \<open>close()\<close> raised, and after a second
  one whose \<open>close()\<close> returned.
\<close>

definition fake_still_open :: "nat service" where
  "fake_still_open =
     fake_ready\<lparr>client := Some (Suc 0), calls := calls fake_ready @ [Call ''close'' []],
       logged := logged fake_ready @ [(ERROR, ''Error during disconnect: socket error'')]\<rparr>"

definition fake_closed :: "nat service" where
  "fake_closed =
     fake_still_open\<lparr>client := Some (Suc (Suc 0)), connected := False,
       calls := calls fake_still_open @ [Call ''close'' []],
       logged := logged fake_still_open @ [(INFO, ''Disconnected from RCON server'')]\<rparr>"

text \<open>A port of 4301 digits, which \<open>str\<close> refuses to format.\<close>

definition huge_port :: int where
  "huge_port = 10 ^ 4300"

text \<open>The stand-in library with a \<open>login\<close> that rejects and names the password it was given.\<close>

definition echo_lib :: "nat client_lib" where
  "echo_lib =
     (fake_lib 0)\<lparr>cl_login :=
        (\<lambda>pw c. (Inl (Exn ''WrongPassword'' (''wrong password: '' @ pw)), c))\<rparr>"

section \<open>Relations between the states before and after a call\<close>

text \<open>
  \<open>keeps s t\<close>: \<open>t\<close> has the credentials and the connected flag of \<open>s\<close>, and a client
  object exactly if \<open>s\<close> has one.
\<close>

definition keeps :: "'c service \<Rightarrow> 'c service \<Rightarrow> bool" where
  "keeps s t \<longleftrightarrow>
     server t = server s \<and> port t = port s \<and> password t = password s \<and>
     connected t = connected s \<and> (client t = None) = (client s = None)"

text \<open>The same service with another password.\<close>

definition with_password :: "string \<Rightarrow> 'c service \<Rightarrow> 'c service" where
  "with_password p s = s\<lparr>password := p\<rparr>"

text \<open>
  What a text-formatting wrapper over a helper of the client does, written out: on a service
  that is not connected the \<open>RuntimeError\<close> of \<open>send_command\<close> and no change; on a
  connected one a single call of the helper \<open>name\<close> with the arguments \<open>args\<close>, whose
  result is returned; only the client (and the record of calls) changes, nothing is logged.
\<close>

definition helper_outcome ::
  "'c client_lib \<Rightarrow> string \<Rightarrow> arg list \<Rightarrow> 'c service \<Rightarrow> (exn + string) \<times> 'c service" where
  "helper_outcome lib name args s =
     (case client s of
        None \<Rightarrow> (Inl not_connected_error, s)
      | Some c \<Rightarrow>
          if connected s then
            (case cl_command lib name args c of
               (r, c') \<Rightarrow> (r, s\<lparr>client := Some c', calls := calls s @ [Call name args]\<rparr>))
          else (Inl not_connected_error, s))"

section \<open>The frame codec of the specification\<close>

text \<open>
  The repository has no packet codec: framing is done inside the client library.  The
  codec below follows sections 3, 4.1 and 6 of the specification.
\<close>

type_synonym byte = "8 word"

text \<open>Modelled from the spec: a 32-bit field of the header as four bytes, little-endian.\<close>

definition le32 :: "32 word \<Rightarrow> byte list" where
  "le32 w = [ucast w, ucast (drop_bit 8 w), ucast (drop_bit 16 w), ucast (drop_bit 24 w)]"

text \<open>Modelled from the spec: the 32-bit field that the first four bytes of a buffer hold.\<close>

fun from_le32 :: "byte list \<Rightarrow> 32 word" where
  "from_le32 (b0 # b1 # b2 # b3 # rest) =
     ucast b0 OR push_bit 8 (ucast b1) OR push_bit 16 (ucast b2) OR push_bit 24 (ucast b3)"
| "from_le32 bs = 0"

text \<open>
  Modelled from the spec: the protocol maximum of a payload, "~4096 bytes per fragment".
\<close>

definition max_payload :: nat where
  "max_payload = 4096"

text \<open>
  Modelled from the spec: the packet types, the enum of section 3, and their codes on the
  wire from section 6, which gives 3 to \<open>Auth\<close> and the one code 2 to both \<open>Command\<close> and
  \<open>AuthResponse\<close>.  It names no code for \<open>CommandResponse\<close>; that code is the parameter
  \<open>rc\<close> of the codec.
\<close>

datatype packet_type = Auth | AuthResponse | Command | CommandResponse

fun type_code :: "32 word \<Rightarrow> packet_type \<Rightarrow> 32 word" where
  "type_code rc Auth = 3"
| "type_code rc AuthResponse = 2"
| "type_code rc Command = 2"
| "type_code rc CommandResponse = rc"

text \<open>
  Modelled from the spec: the member a decoder gives to a code.  For the code 2 it has to
  pick one of the two members that share it; \<open>Command\<close>, named first in section 6, is taken.
\<close>

definition type_of_code :: "32 word \<Rightarrow> 32 word \<Rightarrow> packet_type option" where
  "type_of_code rc w =
     (if w = 3 then Some Auth else if w = 2 then Some Command
      else if w = rc then Some CommandResponse else None)"

text \<open>
  Modelled from the spec: the \<open>Packet\<close> of section 3.  \<open>frame_length\<close> is its \<open>length\<close>
  field.
\<close>

record packet =
  frame_length :: "32 word"
  requestId :: "32 word"
  packetType :: packet_type
  payload :: "byte list"
  padding :: byte

text \<open>Modelled from the spec: the failure of \<open>encode\<close> and the three results of \<open>tryDecode\<close>.\<close>

datatype codec_error = EncodingError

datatype decode_result = Decoded packet nat | Incomplete | CorruptFrame

text \<open>
  Modelled from the spec: \<open>encode\<close> of section 4.1.  The header holds \<open>length\<close>,
  \<open>requestId\<close> and the code of \<open>packetType\<close>, little-endian; the payload and two null
  bytes follow; \<open>length\<close> counts the bytes after itself (two fields of four bytes, the
  payload, two null bytes).  A payload over the maximum is an \<open>EncodingError\<close>.
\<close>

definition encode ::
  "32 word \<Rightarrow> 32 word \<Rightarrow> packet_type \<Rightarrow> byte list \<Rightarrow> codec_error + byte list" where
  "encode rc rid ty pl =
     (if length pl > max_payload then Inl EncodingError
      else Inr (le32 (of_nat (length pl + 10)) @ le32 rid @ le32 (type_code rc ty) @ pl
                  @ [0, 0]))"

text \<open>
  Modelled from the spec: \<open>tryDecode\<close> of section 4.1.  It reads the length prefix, answers
  \<open>Incomplete\<close> when fewer than \<open>length + 4\<close> bytes are buffered, \<open>CorruptFrame\<close> when
  the last two bytes of the frame are not both zero, and otherwise the packet with the
  number of bytes consumed.  The spec leaves three cases open, which are settled here as
  follows: a buffer too short to hold the prefix is \<open>Incomplete\<close>; a declared length
  (a signed \<open>int32\<close>) under 10, too small for the two fields and the two null bytes, is a
  \<open>CorruptFrame\<close>; so is a type code that stands for no member.
\<close>

definition tryDecode :: "32 word \<Rightarrow> byte list \<Rightarrow> decode_result" where
  "tryDecode rc buffer =
     (if length buffer < 4 then Incomplete
      else let len = sint (from_le32 buffer) in
        if len < 10 then CorruptFrame
        else if int (length buffer) < len + 4 then Incomplete
        else let body = take (nat len) (drop 4 buffer) in
          if drop (nat len - 2) body \<noteq> [0, 0] then CorruptFrame
          else case type_of_code rc (from_le32 (drop 4 body)) of
                 None \<Rightarrow> CorruptFrame
               | Some ty \<Rightarrow>
                   Decoded
                     \<lparr>frame_length = from_le32 buffer,
                      requestId = from_le32 body,
                      packetType = ty,
                      payload = take (nat len - 10) (drop 8 body),
                      padding = 0\<rparr>
                     (nat len + 4))"

section \<open>Basic facts about the service\<close>

lemma ensure_connected_iff:
  "ensure_connected s = (if is_connected s then Inr () else Inl not_connected_error)"
  by (auto simp: ensure_connected_def is_connected_def)

lemma guarded_connected: "is_connected s \<Longrightarrow> guarded body s = body s"
  by (simp add: guarded_def ensure_connected_iff)

lemma send_command_not_connected:
  "\<not> is_connected s \<Longrightarrow> send_command lib command s = (Inl not_connected_error, s)"
  by (simp add: send_command_def ensure_connected_iff)

lemma invoke_Some:
  "client s = Some c \<Longrightarrow>
   invoke m cl s = (fst (m c), s\<lparr>client := Some (snd (m c)), calls := calls s @ [cl]\<rparr>)"
  by (simp add: invoke_def split: prod.splits)

lemma connect_returned:
  "fst (connect lib s) = Inr b \<Longrightarrow> b \<and> is_connected (snd (connect lib s))"
  by (auto simp: connect_def Let_def invoke_Some connect_failed_def is_connected_def log_to_def
      split: sum.splits prod.splits)

lemma connect_connection_error:
  "fst (connect lib s) = Inl e \<Longrightarrow> exn_class e = ''ConnectionError'' \<Longrightarrow>
   \<not> is_connected (snd (connect lib s))"
proof -
  have v: "str_int i = Inl ve \<Longrightarrow> exn_class ve \<noteq> ''ConnectionError''" for i ve
    by (auto simp: str_int_def int_str_error_def split: if_splits)
  show "fst (connect lib s) = Inl e \<Longrightarrow> exn_class e = ''ConnectionError'' \<Longrightarrow>
   \<not> is_connected (snd (connect lib s))"
    by (auto simp: connect_def Let_def invoke_Some connect_failed_def is_connected_def log_to_def
        split: sum.splits prod.splits dest: v)
qed

lemma disconnect_returns: "fst (disconnect lib s) = Inr ()"
  by (simp add: disconnect_def split: prod.splits sum.splits)

lemma disconnect_noop: "\<not> is_connected s \<Longrightarrow> disconnect lib s = (Inr (), s)"
  by (auto simp: disconnect_def is_connected_def)

lemma disconnect_closed:
  "\<not> close_raises lib s \<Longrightarrow> \<not> is_connected (snd (disconnect lib s))"
  by (auto simp: disconnect_def is_connected_def close_raises_def invoke_Some log_to_def
      split: prod.splits sum.splits)

lemma disconnect_close_failed:
  "client s = Some c \<Longrightarrow> connected s \<Longrightarrow> cl_close lib c = (Inl e, c') \<Longrightarrow>
   disconnect lib s =
     (Inr (), s\<lparr>client := Some c', calls := calls s @ [Call ''close'' []],
                logged := logged s @ [(ERROR, ''Error during disconnect: '' @ exn_text e)]\<rparr>)"
  by (simp add: disconnect_def invoke_Some log_to_def)

section \<open>Concrete runs\<close>

lemma digit_chars_small: "n < 10 \<Longrightarrow> digit_chars n = [char_of (48 + n)]"
  by (subst digit_chars.simps) simp

lemma digit_chars_large:
  "\<not> n < 10 \<Longrightarrow> digit_chars n = digit_chars (n div 10) @ [char_of (48 + n mod 10)]"
  by (subst digit_chars.simps) simp

lemmas char_of_eval = char_of_def bit_iff_odd_drop_bit

lemma str_int_25575: "str_int 25575 = Inr ''25575''"
  by (simp add: str_int_def max_str_digits_def digit_chars_small digit_chars_large char_of_eval)

lemma digit_chars_length: "10 ^ k \<le> n \<Longrightarrow> k < length (digit_chars n)"
proof (induction k arbitrary: n)
  case 0
  show ?case
    by (subst digit_chars.simps) simp
next
  case (Suc k)
  have "(10::nat) * 1 \<le> 10 * 10 ^ k"
    by (rule mult_le_mono2) simp
  also have "\<dots> \<le> n"
    using Suc.prems by simp
  finally have "\<not> n < 10"
    by simp
  moreover from Suc.prems have "10 ^ k \<le> n div 10"
    by (simp add: less_eq_div_iff_mult_less_eq mult.commute)
  then have "k < length (digit_chars (n div 10))"
    by (rule Suc.IH)
  ultimately show ?case
    by (simp add: digit_chars_large)
qed

lemma str_int_over_limit: "10 ^ 4300 \<le> \<bar>i\<bar> \<Longrightarrow> str_int i = Inl int_str_error"
proof -
  assume "10 ^ 4300 \<le> \<bar>i\<bar>"
  then have "(10::nat) ^ 4300 \<le> nat \<bar>i\<bar>"
    by (simp only: le_nat_iff [OF abs_ge_zero] of_nat_power of_nat_numeral)
  then have "4300 < length (digit_chars (nat \<bar>i\<bar>))"
    by (rule digit_chars_length)
  then show ?thesis
    by (simp add: str_int_def max_str_digits_def)
qed

lemma init_not_connected: "\<not> is_connected (init srv prt pw)"
  by (simp add: init_def is_connected_def)

lemma fake_connect_ok:
  "connect (fake_lib k) (init ''127.0.0.1'' 25575 ''Hatsune_Miku'') = (Inr True, fake_ready)"
  by (simp add: connect_def fake_lib_def init_def invoke_def log_to_def str_int_25575
        fake_ready_def)

lemma fake_connect_wrong:
  "connect (fake_lib k) (init ''127.0.0.1'' 25575 ''guess'') =
    (Inl (Exn ''ConnectionError'' ''Failed to connect to RCON server: wrong password''),
     \<lparr>server = ''127.0.0.1'', port = 25575, password = ''guess'',
      client = Some 0, connected = False,
      logged = [(ERROR, ''Failed to connect to 127.0.0.1:25575: wrong password'')],
      calls = [Call ''Client'' [AStr ''127.0.0.1'', AInt 25575], Call ''connect'' [],
               Call ''login'' [AStr ''guess'']]\<rparr>)"
  by (simp add: connect_def fake_lib_def init_def invoke_def log_to_def str_int_25575 connect_failed_def)

lemma fake_min_connect_wrong:
  "min_connect (fake_lib k) (min_init ''127.0.0.1'' 25575 ''guess'') =
    (Inl (Exn ''WrongPassword'' ''wrong password''),
     \<lparr>m_server = ''127.0.0.1'', m_port = 25575, m_password = ''guess'', m_client = Some 0,
      m_calls = [Call ''Client'' [AStr ''127.0.0.1'', AInt 25575], Call ''connect'' [],
                 Call ''login'' [AStr ''guess'']]\<rparr>)"
  by (simp add: min_connect_def fake_lib_def min_init_def min_invoke_def)

lemma fake_min_connect_ok:
  "min_connect (fake_lib k) (min_init ''127.0.0.1'' 25575 ''Hatsune_Miku'') =
    (Inr (),
     \<lparr>m_server = ''127.0.0.1'', m_port = 25575, m_password = ''Hatsune_Miku'',
      m_client = Some 0,
      m_calls = [Call ''Client'' [AStr ''127.0.0.1'', AInt 25575], Call ''connect'' [],
                 Call ''login'' [AStr ''Hatsune_Miku'']]\<rparr>)"
  by (simp add: min_connect_def fake_lib_def min_init_def min_invoke_def)

lemma fake_ready_connected:
  "is_connected fake_ready" "client fake_ready = Some 0" "connected fake_ready"
  "logged fake_ready = [(INFO, ''Successfully connected to 127.0.0.1:25575'')]"
  by (simp_all add: fake_ready_def is_connected_def)

lemma fake_close: "cl_close (fake_lib k) c =
    (if c < k then (Inl (Exn ''OSError'' ''socket error''), Suc c) else (Inr (), Suc c))"
  by (simp add: fake_lib_def)

lemma fake_run: "cl_run (fake_lib k) cmd c = (Inr (''Executed: '' @ cmd), c)"
  by (simp add: fake_lib_def)

lemma fake_close_raises: "close_raises (fake_lib k) s \<longleftrightarrow> (\<exists>c. client s = Some c \<and> c < k)"
  by (simp add: close_raises_def fake_close split: option.splits)

text \<open>The stand-in library with a first \<open>close()\<close> that raises: two disconnects in a row.\<close>

lemma fake_disconnect_raising:
  "disconnect (fake_lib (Suc 0)) fake_ready = (Inr (), fake_still_open)"
  by (simp add: disconnect_def invoke_def fake_close fake_ready_def log_to_def
        fake_still_open_def)

lemma fake_disconnect_again:
  "disconnect (fake_lib (Suc 0)) fake_still_open = (Inr (), fake_closed)"
  by (simp add: disconnect_def invoke_def fake_close fake_ready_def log_to_def
        fake_still_open_def fake_closed_def)

lemma fake_flags:
  "connected fake_still_open" "\<not> connected fake_closed" "fake_closed \<noteq> fake_still_open"
  "is_connected fake_still_open"
  by (simp_all add: fake_ready_def fake_still_open_def fake_closed_def is_connected_def)

section \<open>What the operations leave unchanged\<close>

lemma keeps_is_connected: "keeps s t \<Longrightarrow> is_connected t = is_connected s"
  by (auto simp: keeps_def is_connected_def)

lemma keeps_refl: "keeps s s"
  by (simp add: keeps_def)

lemma keeps_invoke: "keeps s (snd (invoke m cl s))"
  by (simp add: keeps_def invoke_def split: option.splits prod.splits)

lemma keeps_client_call: "keeps s (snd (client_call lib name args s))"
  by (simp add: client_call_def keeps_invoke)

lemma keeps_send_command: "keeps s (snd (send_command lib command s))"
  by (auto simp: keeps_def send_command_def invoke_def log_to_def
      split: sum.splits option.splits prod.splits)

lemma keeps_list_players:
  "keeps s (snd (case invoke m cl s of (Inl e, s1) \<Rightarrow> (Inl e, s1) | (Inr r, s1) \<Rightarrow> (Inr (f r), s1)))"
  using keeps_invoke [of s m cl] by (auto split: prod.splits sum.splits)

lemma keeps_guarded: "(\<And>s. keeps s (snd (body s))) \<Longrightarrow> keeps s (snd (guarded body s))"
  by (simp add: guarded_def split: sum.splits) (simp add: keeps_def)

lemmas op_defs =
  get_player_list_def get_player_count_def kick_player_def ban_player_def pardon_player_def
  op_player_def deop_player_def whitelist_add_def whitelist_remove_def whitelist_list_def
  whitelist_on_def whitelist_off_def whitelist_reload_def stop_server_def save_all_def
  save_on_def save_off_def reload_server_def broadcast_message_def tell_player_def
  send_title_def set_time_def add_time_def get_time_def set_weather_def set_difficulty_def
  set_gamemode_def teleport_player_def teleport_player_to_player_def give_item_def
  clear_player_inventory_def get_server_version_def get_tps_def get_seed_def
  execute_as_player_def set_spawn_protection_def set_gamerule_def get_gamerule_def

lemma keeps_apply_op: "x \<noteq> Connect \<Longrightarrow> x \<noteq> Disconnect \<Longrightarrow> keeps s (apply_op lib x s)"
proof (cases x)
  case Is_connected
  then show ?thesis by (simp add: keeps_def)
qed (simp_all add: op_defs keeps_guarded keeps_client_call keeps_send_command
       keeps_list_players keeps_refl split: sum.splits)

lemma creds_connect:
  "server (snd (connect lib s)) = server s \<and> port (snd (connect lib s)) = port s
   \<and> password (snd (connect lib s)) = password s"
  by (auto simp: connect_def Let_def invoke_def connect_failed_def log_to_def
      split: sum.splits prod.splits)

lemma creds_disconnect:
  "server (snd (disconnect lib s)) = server s \<and> port (snd (disconnect lib s)) = port s
   \<and> password (snd (disconnect lib s)) = password s"
  by (auto simp: disconnect_def invoke_def log_to_def split: sum.splits prod.splits option.splits)

lemma creds_apply_op:
  "server (apply_op lib x s) = server s \<and> port (apply_op lib x s) = port s
   \<and> password (apply_op lib x s) = password s"
proof (cases "x = Connect \<or> x = Disconnect")
  case True
  then show ?thesis
    using creds_connect [of lib s] creds_disconnect [of lib s] by auto
next
  case False
  then have "keeps s (apply_op lib x s)"
    by (simp add: keeps_apply_op)
  then show ?thesis
    by (simp add: keeps_def)
qed

lemma creds_run_ops:
  "server (run_ops lib xs s) = server s \<and> port (run_ops lib xs s) = port s
   \<and> password (run_ops lib xs s) = password s"
  by (induction xs arbitrary: s) (simp_all add: creds_apply_op)

lemma creds_min_apply_op:
  "m_server (min_apply_op lib y m) = m_server m \<and> m_port (min_apply_op lib y m) = m_port m
   \<and> m_password (min_apply_op lib y m) = m_password m"
  by (cases y)
    (auto simp: min_connect_def min_send_command_def min_get_player_list_def min_invoke_def
       Let_def split: sum.splits prod.splits option.splits)

section \<open>The password and the log\<close>

lemma invoke_pw: "invoke m cl (with_password p s) = apsnd (with_password p) (invoke m cl s)"
  by (simp add: invoke_def with_password_def split: option.splits prod.splits)

lemma client_call_pw:
  "client_call lib name args (with_password p s) =
     apsnd (with_password p) (client_call lib name args s)"
  by (simp add: client_call_def invoke_pw)

lemma ensure_connected_pw: "ensure_connected (with_password p s) = ensure_connected s"
  by (simp add: ensure_connected_def with_password_def)

lemma log_to_pw: "log_to lv x (with_password p s) = with_password p (log_to lv x s)"
  by (simp add: log_to_def with_password_def)

lemma send_command_pw:
  "send_command lib command (with_password p s) =
     apsnd (with_password p) (send_command lib command s)"
proof (cases "invoke (cl_run lib command) (Call ''run'' [AStr command]) s")
  case (Pair r s1)
  then show ?thesis
    by (simp add: send_command_def ensure_connected_pw invoke_pw log_to_pw
        split: sum.splits)
qed

lemma list_players_pw:
  "(case invoke m cl (with_password p s) of
      (Inl e, s1) \<Rightarrow> (Inl e, s1) | (Inr r, s1) \<Rightarrow> (Inr (f r), s1)) =
   apsnd (with_password p)
     (case invoke m cl s of (Inl e, s1) \<Rightarrow> (Inl e, s1) | (Inr r, s1) \<Rightarrow> (Inr (f r), s1))"
  by (cases "invoke m cl s") (simp add: invoke_pw split: sum.splits)

lemma guarded_pw:
  "(\<And>s. body (with_password p s) = apsnd (with_password p) (body s)) \<Longrightarrow>
   guarded body (with_password p s) = apsnd (with_password p) (guarded body s)"
  by (simp add: guarded_def ensure_connected_pw split: sum.splits)

lemma disconnect_pw:
  "disconnect lib (with_password p s) = apsnd (with_password p) (disconnect lib s)"
proof (cases "invoke (cl_close lib) (Call ''close'' []) s")
  case (Pair r s1)
  have "client (with_password p s) = client s" "connected (with_password p s) = connected s"
    "(with_password p s1)\<lparr>connected := False\<rparr> = with_password p (s1\<lparr>connected := False\<rparr>)"
    by (simp_all add: with_password_def)
  with Pair show ?thesis
    by (simp add: disconnect_def invoke_pw log_to_pw split: sum.splits)
qed

lemma apply_op_pw:
  "x \<noteq> Connect \<Longrightarrow> apply_op lib x (with_password p s) = with_password p (apply_op lib x s)"
  by (cases x)
    (simp_all add: op_defs guarded_pw client_call_pw send_command_pw list_players_pw
       disconnect_pw split: sum.splits)

lemma connect_logged:
  "str_int (port s) = Inr pt \<Longrightarrow>
   logged (snd (connect lib s)) =
     logged s @
       [case library_failure lib s of
          None \<Rightarrow> (INFO, ''Successfully connected to '' @ server s @ '':'' @ pt)
        | Some e \<Rightarrow>
            (ERROR, ''Failed to connect to '' @ server s @ '':'' @ pt @ '': '' @ exn_text e)]"
  by (auto simp: connect_def library_failure_def Let_def invoke_def connect_failed_def log_to_def
      split: sum.splits prod.splits)

section \<open>The guard of the conveniences built on \<open>send_command\<close>\<close>

lemma guarded_send_command: "guarded (send_command lib command) s = send_command lib command s"
  by (simp add: guarded_def send_command_def split: sum.splits)

lemma guarded_client_call:
  "guarded (client_call lib name args) s = helper_outcome lib name args s"
  by (auto simp: guarded_def ensure_connected_def client_call_def invoke_def helper_outcome_def
      split: option.splits prod.splits)

lemma helper_outcome_run:
  "\<forall>c. cl_command lib name args c = cl_run lib cmd c \<Longrightarrow>
   fst (helper_outcome lib name args s) = fst (send_command lib cmd s)
   \<and> client (snd (helper_outcome lib name args s)) = client (snd (send_command lib cmd s))
   \<and> logged (snd (helper_outcome lib name args s)) = logged s"
  by (auto simp: helper_outcome_def send_command_def ensure_connected_def invoke_def log_to_def
      split: option.splits prod.splits sum.splits)

lemma lower_True: "lower ''True'' = ''true''"
  by (simp add: lower_def lower_char_def char_of_eval)

lemma fake_list:
  "cl_list (fake_lib k) c = (Inr \<lparr>players = [''Steve'', ''Alex''], max_players = 20\<rparr>, c)"
  by (simp add: fake_lib_def)

section \<open>The outcomes of \<open>connect\<close>\<close>

lemma connect_success:
  "new_Client lib (server s) (port s) = Inr c0 \<Longrightarrow> cl_connect lib c0 = (Inr (), c1) \<Longrightarrow>
   cl_login lib (password s) c1 = (Inr (), c2) \<Longrightarrow> str_int (port s) = Inr pt \<Longrightarrow>
   connect lib s =
     (Inr True,
      s\<lparr>client := Some c2, connected := True,
        calls := calls s @ [Call ''Client'' [AStr (server s), AInt (port s)], Call ''connect'' [],
                           Call ''login'' [AStr (password s)]],
        logged := logged s @ [(INFO, ''Successfully connected to '' @ server s @ '':'' @ pt)]\<rparr>)"
  by (simp add: connect_def Let_def invoke_def log_to_def)

lemma connect_unformattable_port:
  "new_Client lib (server s) (port s) = Inr c0 \<Longrightarrow> cl_connect lib c0 = (Inr (), c1) \<Longrightarrow>
   cl_login lib (password s) c1 = (Inr (), c2) \<Longrightarrow> str_int (port s) = Inl ve \<Longrightarrow>
   connect lib s =
     (Inl ve,
      s\<lparr>client := Some c2, connected := True,
        calls := calls s @ [Call ''Client'' [AStr (server s), AInt (port s)], Call ''connect'' [],
                           Call ''login'' [AStr (password s)]]\<rparr>)"
  by (simp add: connect_def Let_def invoke_def connect_failed_def)

lemma connect_failed_unformattable_port:
  "str_int (port s) = Inl ve \<Longrightarrow>
   (new_Client lib (server s) (port s) = Inl e \<longrightarrow>
      connect lib s =
        (Inl ve, s\<lparr>calls := calls s @ [Call ''Client'' [AStr (server s), AInt (port s)]]\<rparr>))
   \<and> (new_Client lib (server s) (port s) = Inr c0 \<and> cl_connect lib c0 = (Inl e, c1) \<longrightarrow>
      connect lib s =
        (Inl ve,
         s\<lparr>client := Some c1,
           calls := calls s @ [Call ''Client'' [AStr (server s), AInt (port s)],
                      Call ''connect'' []]\<rparr>))
   \<and> (new_Client lib (server s) (port s) = Inr c0 \<and> cl_connect lib c0 = (Inr (), c1)
        \<and> cl_login lib (password s) c1 = (Inl e, c2) \<longrightarrow>
      connect lib s =
        (Inl ve,
         s\<lparr>client := Some c2,
           calls := calls s @ [Call ''Client'' [AStr (server s), AInt (port s)],
                      Call ''connect'' [], Call ''login'' [AStr (password s)]]\<rparr>))"
  by (simp add: connect_def Let_def invoke_def connect_failed_def)

section \<open>Facts about the frame codec\<close>

lemma from_le32_le32: "from_le32 (le32 w @ rest) = w"
proof -
  have "ucast (ucast w :: byte) OR push_bit 8 (ucast (ucast (drop_bit 8 w) :: byte))
          OR push_bit 16 (ucast (ucast (drop_bit 16 w) :: byte))
          OR push_bit 24 (ucast (ucast (drop_bit 24 w) :: byte)) = w" (is "?v = w")
  proof (rule bit_word_eqI)
    fix n
    assume "n < LENGTH(32)"
    then consider "n < 8" | "8 \<le> n" "n < 16" | "16 \<le> n" "n < 24" | "24 \<le> n" "n < 32"
      by fastforce
    then show "bit ?v n = bit w n"
      by cases (auto simp: bit_simps)
  qed
  then show ?thesis
    by (simp add: le32_def)
qed

lemma length_le32: "length (le32 w) = 4"
  by (simp add: le32_def)

lemma sint_frame_length:
  assumes "n \<le> 4096"
  shows "sint (word_of_nat n + 10 :: 32 word) = int n + 10"
proof -
  have "(word_of_nat n + 10 :: 32 word) = word_of_nat (n + 10)"
    by simp
  then have "sint (word_of_nat n + 10 :: 32 word) = signed_take_bit 31 (int (n + 10))"
    by (simp only: signed_of_nat) simp
  also have "\<dots> = int (n + 10)"
    using assms by (intro signed_take_bit_int_eq_self) auto
  finally show ?thesis
    by simp
qed

lemma nat_frame_length: "nat (int n + 10) = n + 10"
  by (simp add: nat_add_distrib)

lemma type_of_code_type_code:
  "type_of_code rc (type_code rc ty) =
     Some (case ty of
             Auth \<Rightarrow> Auth | AuthResponse \<Rightarrow> Command | Command \<Rightarrow> Command
           | CommandResponse \<Rightarrow>
               if rc = 3 then Auth else if rc = 2 then Command else CommandResponse)"
  by (cases ty) (simp_all add: type_of_code_def)

lemma type_code_decoded: "type_code rc (the (type_of_code rc (type_code rc ty))) = type_code rc ty"
  by (cases ty) (simp_all add: type_of_code_def)

lemma decoded_type_same:
  "ty = Auth \<or> ty = Command \<or> ty = CommandResponse \<and> rc \<noteq> 2 \<and> rc \<noteq> 3 \<Longrightarrow>
   the (type_of_code rc (type_code rc ty)) = ty"
  by (cases ty) (simp_all add: type_of_code_def)

lemma decode_frame:
  "length pl \<le> max_payload \<Longrightarrow>
   tryDecode rc
     (le32 (of_nat (length pl + 10)) @ le32 rid @ le32 (type_code rc ty) @ pl @ [0, 0] @ rest) =
     Decoded \<lparr>frame_length = of_nat (length pl + 10), requestId = rid,
              packetType = the (type_of_code rc (type_code rc ty)),
              payload = pl, padding = 0\<rparr> (length pl + 14)"
  by (simp add: tryDecode_def from_le32_le32 length_le32 sint_frame_length
        nat_frame_length max_payload_def Let_def type_of_code_type_code)

section \<open>Claims\<close>

text \<open>
  C1 (as amended).  For every command string, \<open>send_command\<close> on a service that is not
  connected raises \<open>RuntimeError("Not connected. Call connect() first.")\<close> and returns the
  state as it was, so no call reaches the client and nothing is logged.  In the full service
  this covers every state with \<open>is_connected()\<close> false, also the one left by a \<open>connect\<close>
  that raised \<open>ConnectionError\<close>; in the minimal service it covers the states in which no
  client object exists.
\<close>

theorem send_command_not_connected_raises:
  "(\<not> is_connected s \<longrightarrow> send_command lib command s = (Inl not_connected_error, s))
   \<and> (fst (connect lib s) = Inl e \<and> exn_class e = ''ConnectionError'' \<longrightarrow>
        send_command lib command (snd (connect lib s)) =
          (Inl not_connected_error, snd (connect lib s)))
   \<and> (m_client m = None \<longrightarrow> min_send_command lib command m = (Inl not_connected_error, m))
   \<and> not_connected_error = Exn ''RuntimeError'' ''Not connected. Call connect() first.''"
  using connect_connection_error [of lib s e]
  by (auto simp: send_command_not_connected min_send_command_def not_connected_error_def)

theorem send_command_not_connected_raises_witness:
  "send_command (fake_lib 0) ''list'' (init ''127.0.0.1'' 25575 ''guess'') =
     (Inl (Exn ''RuntimeError'' ''Not connected. Call connect() first.''),
      init ''127.0.0.1'' 25575 ''guess'')
   \<and> fst (connect (fake_lib 0) (init ''127.0.0.1'' 25575 ''guess'')) =
       Inl (Exn ''ConnectionError'' ''Failed to connect to RCON server: wrong password'')
   \<and> send_command (fake_lib 0) ''list''
        (snd (connect (fake_lib 0) (init ''127.0.0.1'' 25575 ''guess''))) =
     (Inl (Exn ''RuntimeError'' ''Not connected. Call connect() first.''),
      snd (connect (fake_lib 0) (init ''127.0.0.1'' 25575 ''guess'')))
   \<and> min_send_command (fake_lib 0) ''list'' (min_init ''127.0.0.1'' 25575 ''guess'') =
     (Inl (Exn ''RuntimeError'' ''Not connected. Call connect() first.''),
      min_init ''127.0.0.1'' 25575 ''guess'')"
  using send_command_not_connected_raises
    [of "init ''127.0.0.1'' 25575 ''guess''" "fake_lib 0" "''list''"
        "Exn ''ConnectionError'' ''Failed to connect to RCON server: wrong password''"
        "min_init ''127.0.0.1'' 25575 ''guess''"]
  by (simp add: init_not_connected fake_connect_wrong min_init_def)

text \<open>
  The claim as stated fails: the exception is a \<open>RuntimeError\<close>, not a \<open>ProtocolError\<close>;
  and in the minimal service a \<open>send_command\<close> after a failed \<open>connect\<close> does reach the
  client, which the failed \<open>connect\<close> left in place.
\<close>

theorem send_command_protocol_error_counterexample:
  "fst (send_command (fake_lib 0) ''list'' (init ''127.0.0.1'' 25575 ''Hatsune_Miku'')) =
     Inl (Exn ''RuntimeError'' ''Not connected. Call connect() first.'')
   \<and> exn_class (Exn ''RuntimeError'' ''Not connected. Call connect() first.'') \<noteq> ''ProtocolError''
   \<and> min_send_command (fake_lib 0) ''list''
        (snd (min_connect (fake_lib 0) (min_init ''127.0.0.1'' 25575 ''guess''))) =
       (Inr ''Executed: list'',
        \<lparr>m_server = ''127.0.0.1'', m_port = 25575, m_password = ''guess'', m_client = Some 0,
         m_calls = [Call ''Client'' [AStr ''127.0.0.1'', AInt 25575], Call ''connect'' [],
                    Call ''login'' [AStr ''guess''], Call ''run'' [AStr ''list'']]\<rparr>)"
proof -
  have "min_send_command (fake_lib 0) ''list''
          \<lparr>m_server = ''127.0.0.1'', m_port = 25575, m_password = ''guess'', m_client = Some 0,
           m_calls = [Call ''Client'' [AStr ''127.0.0.1'', AInt 25575], Call ''connect'' [],
                      Call ''login'' [AStr ''guess'']]\<rparr> =
       (Inr ''Executed: list'',
        \<lparr>m_server = ''127.0.0.1'', m_port = 25575, m_password = ''guess'', m_client = Some 0,
         m_calls = [Call ''Client'' [AStr ''127.0.0.1'', AInt 25575], Call ''connect'' [],
                    Call ''login'' [AStr ''guess''], Call ''run'' [AStr ''list'']]\<rparr>)"
    by (simp add: min_send_command_def min_invoke_def fake_lib_def)
  then show ?thesis
    by (simp add: send_command_not_connected init_not_connected not_connected_error_def
          fake_min_connect_wrong)
qed

text \<open>
  C2.  \<open>connect\<close> is documented to return \<open>True\<close> or to raise \<open>ConnectionError\<close>.  It does
  neither when the port cannot be formatted (an integer of more than 4300 digits).  If the
  library accepts the port and the password, the f-string of the success message raises
  after \<open>_connected = True\<close>, the handler's own f-string raises again, and \<open>connect\<close> leaves
  with a \<open>ValueError\<close>: nothing is logged and \<open>is_connected()\<close> is true.  If the library
  raises, the handler's f-string raises before anything is logged or the flag is cleared,
  and \<open>connect\<close> leaves with a \<open>ValueError\<close> and the flag as it was.
\<close>

theorem connect_unformattable_port_raises:
  "10 ^ 4300 \<le> \<bar>port s\<bar> \<Longrightarrow>
   (new_Client lib (server s) (port s) = Inr c0 \<and> cl_connect lib c0 = (Inr (), c1)
      \<and> cl_login lib (password s) c1 = (Inr (), c2) \<longrightarrow>
      connect lib s =
        (Inl int_str_error,
         s\<lparr>client := Some c2, connected := True,
           calls := calls s @ [Call ''Client'' [AStr (server s), AInt (port s)],
                      Call ''connect'' [], Call ''login'' [AStr (password s)]]\<rparr>)
      \<and> is_connected (snd (connect lib s)))
   \<and> (new_Client lib (server s) (port s) = Inl e \<longrightarrow>
      connect lib s =
        (Inl int_str_error,
         s\<lparr>calls := calls s @ [Call ''Client'' [AStr (server s), AInt (port s)]]\<rparr>))
   \<and> (new_Client lib (server s) (port s) = Inr c0 \<and> cl_connect lib c0 = (Inl e, c1) \<longrightarrow>
      connect lib s =
        (Inl int_str_error,
         s\<lparr>client := Some c1,
           calls := calls s @ [Call ''Client'' [AStr (server s), AInt (port s)],
                      Call ''connect'' []]\<rparr>))
   \<and> (new_Client lib (server s) (port s) = Inr c0 \<and> cl_connect lib c0 = (Inr (), c1)
        \<and> cl_login lib (password s) c1 = (Inl e, c2) \<longrightarrow>
      connect lib s =
        (Inl int_str_error,
         s\<lparr>client := Some c2,
           calls := calls s @ [Call ''Client'' [AStr (server s), AInt (port s)],
                      Call ''connect'' [], Call ''login'' [AStr (password s)]]\<rparr>))
   \<and> exn_class int_str_error = ''ValueError''"
proof -
  assume "10 ^ 4300 \<le> \<bar>port s\<bar>"
  then have v: "str_int (port s) = Inl int_str_error"
    by (rule str_int_over_limit)
  have ok: "new_Client lib (server s) (port s) = Inr c0 \<and> cl_connect lib c0 = (Inr (), c1)
      \<and> cl_login lib (password s) c1 = (Inr (), c2) \<longrightarrow>
      connect lib s =
        (Inl int_str_error,
         s\<lparr>client := Some c2, connected := True,
           calls := calls s @ [Call ''Client'' [AStr (server s), AInt (port s)],
                      Call ''connect'' [], Call ''login'' [AStr (password s)]]\<rparr>)
      \<and> is_connected (snd (connect lib s))"
    using v by (simp add: connect_unformattable_port is_connected_def)
  have cls: "exn_class int_str_error = ''ValueError''"
    by (simp add: int_str_error_def)
  from ok connect_failed_unformattable_port [OF v, of lib e c0 c1 c2] cls show ?thesis
    by blast
qed

text \<open>The run on the stand-in library, with the right password and a port of 4301 digits.\<close>

theorem connect_unformattable_port_raises_witness:
  "10 ^ 4300 \<le> \<bar>port (init ''127.0.0.1'' huge_port ''Hatsune_Miku'')\<bar>
   \<and> connect (fake_lib 0) (init ''127.0.0.1'' huge_port ''Hatsune_Miku'') =
     (Inl (Exn ''ValueError''
            (''Exceeds the limit (4300 digits) for integer string conversion; '' @
             ''use sys.set_int_max_str_digits() to increase the limit'')),
      \<lparr>server = ''127.0.0.1'', port = huge_port, password = ''Hatsune_Miku'',
       client = Some 0, connected = True, logged = [],
       calls = [Call ''Client'' [AStr ''127.0.0.1'', AInt huge_port], Call ''connect'' [],
                Call ''login'' [AStr ''Hatsune_Miku'']]\<rparr>)
   \<and> is_connected (snd (connect (fake_lib 0) (init ''127.0.0.1'' huge_port ''Hatsune_Miku'')))"
proof -
  have p: "port (init ''127.0.0.1'' huge_port ''Hatsune_Miku'') = huge_port"
    by (simp add: init_def)
  have big: "10 ^ 4300 \<le> \<bar>port (init ''127.0.0.1'' huge_port ''Hatsune_Miku'')\<bar>"
    unfolding p by (simp only: huge_port_def power_abs abs_numeral order_refl)
  have lib: "new_Client (fake_lib 0) (server (init ''127.0.0.1'' huge_port ''Hatsune_Miku''))
        (port (init ''127.0.0.1'' huge_port ''Hatsune_Miku'')) = Inr 0
      \<and> cl_connect (fake_lib 0) 0 = (Inr (), 0)
      \<and> cl_login (fake_lib 0) (password (init ''127.0.0.1'' huge_port ''Hatsune_Miku'')) 0
          = (Inr (), 0)"
    by (simp add: fake_lib_def init_def)
  note r = connect_unformattable_port_raises
    [OF big, of "fake_lib 0" 0 0 0, THEN conjunct1, THEN mp, OF lib]
  have "connect (fake_lib 0) (init ''127.0.0.1'' huge_port ''Hatsune_Miku'') =
     (Inl (Exn ''ValueError''
            (''Exceeds the limit (4300 digits) for integer string conversion; '' @
             ''use sys.set_int_max_str_digits() to increase the limit'')),
      \<lparr>server = ''127.0.0.1'', port = huge_port, password = ''Hatsune_Miku'',
       client = Some 0, connected = True, logged = [],
       calls = [Call ''Client'' [AStr ''127.0.0.1'', AInt huge_port], Call ''connect'' [],
                Call ''login'' [AStr ''Hatsune_Miku'']]\<rparr>)"
    unfolding r [THEN conjunct1] by (simp add: init_def int_str_error_def)
  with big r [THEN conjunct2] show ?thesis
    by (intro conjI)
qed

text \<open>
  C4.  For every command string, \<open>send_command\<close> on a connected service makes one call,
  \<open>client.run(command)\<close>, on the client it holds, keeps the client as the call leaves it,
  and its outcome is that call's outcome: the text it returned, or the exception it raised.
  The service adds one log record and changes nothing else.  The same holds in the minimal
  service when a client exists, without the log record.
\<close>

theorem send_command_delegates:
  "(is_connected s \<and> client s = Some c \<longrightarrow>
      send_command lib command s =
        (case cl_run lib command c of
           (Inr response, c') \<Rightarrow>
             (Inr response,
              s\<lparr>client := Some c', calls := calls s @ [Call ''run'' [AStr command]],
                logged := logged s @
                  [(DEBUG, ''Command: '' @ command @ '' | Response: '' @ response)]\<rparr>)
         | (Inl e, c') \<Rightarrow>
             (Inl e,
              s\<lparr>client := Some c', calls := calls s @ [Call ''run'' [AStr command]],
                logged := logged s @
                  [(ERROR, ''Command execution failed: '' @ exn_text e)]\<rparr>)))
   \<and> (m_client m = Some c \<longrightarrow>
      min_send_command lib command m =
        (case cl_run lib command c of
           (r, c') \<Rightarrow>
             (r, m\<lparr>m_client := Some c', m_calls := m_calls m @ [Call ''run'' [AStr command]]\<rparr>)))"
  by (auto simp: send_command_def ensure_connected_iff invoke_def min_send_command_def
        min_invoke_def log_to_def split: sum.splits prod.splits)

theorem send_command_delegates_witness:
  "send_command (fake_lib 0) ''list''
          (snd (connect (fake_lib 0) (init ''127.0.0.1'' 25575 ''Hatsune_Miku''))) =
     (Inr ''Executed: list'',
      \<lparr>server = ''127.0.0.1'', port = 25575, password = ''Hatsune_Miku'',
       client = Some 0, connected = True,
       logged = [(INFO, ''Successfully connected to 127.0.0.1:25575''),
                 (DEBUG, ''Command: list | Response: Executed: list'')],
       calls = [Call ''Client'' [AStr ''127.0.0.1'', AInt 25575], Call ''connect'' [],
                Call ''login'' [AStr ''Hatsune_Miku''], Call ''run'' [AStr ''list'']]\<rparr>)
   \<and> fst (min_send_command (fake_lib 0) ''list''
          (snd (min_connect (fake_lib 0) (min_init ''127.0.0.1'' 25575 ''Hatsune_Miku'')))) =
     Inr ''Executed: list''"
  using send_command_delegates
    [of "snd (connect (fake_lib 0) (init ''127.0.0.1'' 25575 ''Hatsune_Miku''))" 0
        "fake_lib 0" "''list''"
        "snd (min_connect (fake_lib 0) (min_init ''127.0.0.1'' 25575 ''Hatsune_Miku''))"]
  by (simp add: fake_connect_ok fake_ready_connected fake_min_connect_ok fake_run)
    (simp add: fake_ready_def)

text \<open>
  C3 (as amended).  \<open>disconnect\<close> never raises.  On a service that is not connected it
  changes nothing.  When the client's \<open>close()\<close> does not raise, a second \<open>disconnect\<close>
  right after the first changes nothing more: twice is the same as once, in result and state.
\<close>

theorem disconnect_twice:
  "fst (disconnect lib s) = Inr ()
   \<and> (\<not> is_connected s \<longrightarrow> disconnect lib s = (Inr (), s))
   \<and> (\<not> close_raises lib s \<longrightarrow>
        disconnect lib (snd (disconnect lib s)) = disconnect lib s)"
proof (intro conjI impI)
  show "fst (disconnect lib s) = Inr ()"
    by (rule disconnect_returns)
next
  assume "\<not> is_connected s"
  then show "disconnect lib s = (Inr (), s)"
    by (rule disconnect_noop)
next
  assume "\<not> close_raises lib s"
  then have "\<not> is_connected (snd (disconnect lib s))"
    by (rule disconnect_closed)
  then have "disconnect lib (snd (disconnect lib s)) = (Inr (), snd (disconnect lib s))"
    by (rule disconnect_noop)
  also have "\<dots> = disconnect lib s"
    using disconnect_returns [of lib s] by (simp add: prod_eq_iff)
  finally show "disconnect lib (snd (disconnect lib s)) = disconnect lib s" .
qed

text \<open>On a service never connected, and on a connected one whose \<open>close()\<close> returns.\<close>

theorem disconnect_twice_witness:
  "disconnect (fake_lib 0) (init ''127.0.0.1'' 25575 ''Hatsune_Miku'') =
     (Inr (), init ''127.0.0.1'' 25575 ''Hatsune_Miku'')
   \<and> disconnect (fake_lib 0)
        (snd (disconnect (fake_lib 0)
               (snd (connect (fake_lib 0) (init ''127.0.0.1'' 25575 ''Hatsune_Miku''))))) =
      disconnect (fake_lib 0)
        (snd (connect (fake_lib 0) (init ''127.0.0.1'' 25575 ''Hatsune_Miku'')))"
  using disconnect_twice [of "fake_lib 0" "init ''127.0.0.1'' 25575 ''Hatsune_Miku''"]
    disconnect_twice
      [of "fake_lib 0" "snd (connect (fake_lib 0) (init ''127.0.0.1'' 25575 ''Hatsune_Miku''))"]
  by (simp add: init_not_connected fake_close_raises)

text \<open>
  The claim as stated fails when the first \<open>close()\<close> raises and the second returns: after
  one \<open>disconnect\<close> the service is still connected, after two it is not.
\<close>

theorem disconnect_twice_counterexample:
  "connected (snd (disconnect (fake_lib 1)
       (snd (connect (fake_lib 1) (init ''127.0.0.1'' 25575 ''Hatsune_Miku'')))))
   \<and> \<not> connected (snd (disconnect (fake_lib 1) (snd (disconnect (fake_lib 1)
       (snd (connect (fake_lib 1) (init ''127.0.0.1'' 25575 ''Hatsune_Miku'')))))))
   \<and> snd (disconnect (fake_lib 1) (snd (disconnect (fake_lib 1)
       (snd (connect (fake_lib 1) (init ''127.0.0.1'' 25575 ''Hatsune_Miku''))))))
     \<noteq> snd (disconnect (fake_lib 1)
       (snd (connect (fake_lib 1) (init ''127.0.0.1'' 25575 ''Hatsune_Miku''))))"
proof -
  have s1: "snd (connect (fake_lib (Suc 0)) (init ''127.0.0.1'' 25575 ''Hatsune_Miku'')) = fake_ready"
    by (simp add: fake_connect_ok)
  show ?thesis
    unfolding One_nat_def s1 fake_disconnect_raising snd_conv fake_disconnect_again
    by (simp add: fake_flags)
qed

text \<open>
  C9.  \<open>disconnect\<close> never raises.  When the service is connected and the client's
  \<open>close()\<close> raises, \<open>disconnect\<close> logs the error and returns; the connected flag is not
  cleared, so \<open>is_connected()\<close> is still true afterwards.
\<close>

theorem disconnect_swallows_close_error:
  "fst (disconnect lib s) = Inr ()
   \<and> (client s = Some c \<and> connected s \<and> cl_close lib c = (Inl e, c') \<longrightarrow>
        snd (disconnect lib s) =
          s\<lparr>client := Some c', calls := calls s @ [Call ''close'' []],
            logged := logged s @ [(ERROR, ''Error during disconnect: '' @ exn_text e)]\<rparr>
        \<and> connected (snd (disconnect lib s))
        \<and> is_connected (snd (disconnect lib s)))"
proof (intro conjI impI)
  show "fst (disconnect lib s) = Inr ()"
    by (rule disconnect_returns)
next
  assume a: "client s = Some c \<and> connected s \<and> cl_close lib c = (Inl e, c')"
  then have d: "disconnect lib s =
     (Inr (), s\<lparr>client := Some c', calls := calls s @ [Call ''close'' []],
                logged := logged s @ [(ERROR, ''Error during disconnect: '' @ exn_text e)]\<rparr>)"
    by (simp add: disconnect_close_failed)
  from d show "snd (disconnect lib s) =
          s\<lparr>client := Some c', calls := calls s @ [Call ''close'' []],
            logged := logged s @ [(ERROR, ''Error during disconnect: '' @ exn_text e)]\<rparr>"
    by simp
  from d a show "connected (snd (disconnect lib s))"
    by simp
  from d a show "is_connected (snd (disconnect lib s))"
    by (simp add: is_connected_def)
qed

theorem disconnect_swallows_close_error_witness:
  "(client (snd (connect (fake_lib 1) (init ''127.0.0.1'' 25575 ''Hatsune_Miku''))) = Some 0
    \<and> connected (snd (connect (fake_lib 1) (init ''127.0.0.1'' 25575 ''Hatsune_Miku'')))
    \<and> cl_close (fake_lib 1) 0 = (Inl (Exn ''OSError'' ''socket error''), 1))
   \<and> is_connected (snd (disconnect (fake_lib 1)
          (snd (connect (fake_lib 1) (init ''127.0.0.1'' 25575 ''Hatsune_Miku'')))))"
proof -
  have h: "client (snd (connect (fake_lib 1) (init ''127.0.0.1'' 25575 ''Hatsune_Miku''))) = Some 0
    \<and> connected (snd (connect (fake_lib 1) (init ''127.0.0.1'' 25575 ''Hatsune_Miku'')))
    \<and> cl_close (fake_lib 1) 0 = (Inl (Exn ''OSError'' ''socket error''), 1)"
    by (simp add: fake_connect_ok fake_ready_connected fake_close)
  note r = disconnect_swallows_close_error
    [of "fake_lib 1" "snd (connect (fake_lib 1) (init ''127.0.0.1'' 25575 ''Hatsune_Miku''))"
        0 "Exn ''OSError'' ''socket error''" 1, THEN conjunct2, THEN mp, OF h]
  from h r [THEN conjunct2, THEN conjunct2] show ?thesis
    by (rule conjI)
qed

text \<open>
  C10.  In the minimal service \<open>get_player_list\<close> has no guard: with no client object
  (before \<open>connect\<close>) it fails with the \<open>AttributeError\<close> of \<open>None.list\<close>, where
  \<open>send_command\<close> raises the \<open>RuntimeError\<close> "Not connected. Call connect() first.".
  Neither makes a call or changes the state.
\<close>

theorem min_get_player_list_unguarded:
  "m_client m = None \<Longrightarrow>
     min_get_player_list lib m = (Inl (attribute_error ''list''), m)
     \<and> exn_class (attribute_error ''list'') = ''AttributeError''
     \<and> min_send_command lib command m = (Inl not_connected_error, m)
     \<and> exn_class not_connected_error = ''RuntimeError''"
  by (simp add: min_get_player_list_def min_invoke_def min_send_command_def attribute_error_def
        not_connected_error_def)

theorem min_get_player_list_unguarded_witness:
  "fst (min_get_player_list (fake_lib 0) (min_init ''127.0.0.1'' 25575 ''Hatsune_Miku'')) =
     Inl (Exn ''AttributeError''
           (CHR 0x27 # ''NoneType'' @ CHR 0x27 # '' object has no attribute '' @
            CHR 0x27 # ''list'' @ [CHR 0x27]))
   \<and> fst (min_send_command (fake_lib 0) ''list'' (min_init ''127.0.0.1'' 25575 ''Hatsune_Miku'')) =
     Inl (Exn ''RuntimeError'' ''Not connected. Call connect() first.'')"
  using min_get_player_list_unguarded
    [of "min_init ''127.0.0.1'' 25575 ''Hatsune_Miku''" "fake_lib 0" "''list''"]
  by (simp add: min_init_def attribute_error_def apostrophe_def not_connected_error_def)

text \<open>
  C5 (as amended).  \<open>is_connected()\<close> is false on a new service.  In every state that a
  sequence of operations reaches: after a \<open>connect\<close> that returned it is true; after a
  \<open>connect\<close> that raised \<open>ConnectionError\<close> it is false; after \<open>disconnect\<close> it is false,
  unless the service was connected and the client's \<open>close()\<close> raised, in which case it
  stays true; every other operation leaves it as it is.
\<close>

theorem is_connected_after_ops:
  "\<not> is_connected (init srv prt pw)
   \<and> (fst (connect lib (run_ops lib ops (init srv prt pw))) = Inr b \<longrightarrow>
        b \<and> is_connected (snd (connect lib (run_ops lib ops (init srv prt pw)))))
   \<and> (fst (connect lib (run_ops lib ops (init srv prt pw))) = Inl e
        \<and> exn_class e = ''ConnectionError'' \<longrightarrow>
        \<not> is_connected (snd (connect lib (run_ops lib ops (init srv prt pw)))))
   \<and> (is_connected (snd (disconnect lib (run_ops lib ops (init srv prt pw))))
        \<longleftrightarrow> is_connected (run_ops lib ops (init srv prt pw))
            \<and> close_raises lib (run_ops lib ops (init srv prt pw)))
   \<and> (x \<noteq> Connect \<and> x \<noteq> Disconnect \<longrightarrow>
        is_connected (apply_op lib x (run_ops lib ops (init srv prt pw)))
          = is_connected (run_ops lib ops (init srv prt pw)))"
proof (intro conjI impI)
  show "\<not> is_connected (init srv prt pw)"
    by (rule init_not_connected)
next
  assume "fst (connect lib (run_ops lib ops (init srv prt pw))) = Inr b"
  then have "b \<and> is_connected (snd (connect lib (run_ops lib ops (init srv prt pw))))"
    by (rule connect_returned)
  then show b and "is_connected (snd (connect lib (run_ops lib ops (init srv prt pw))))"
    by simp_all
next
  assume "fst (connect lib (run_ops lib ops (init srv prt pw))) = Inl e
        \<and> exn_class e = ''ConnectionError''"
  then show "\<not> is_connected (snd (connect lib (run_ops lib ops (init srv prt pw))))"
    using connect_connection_error [of lib "run_ops lib ops (init srv prt pw)" e] by simp
next
  show "is_connected (snd (disconnect lib (run_ops lib ops (init srv prt pw))))
        \<longleftrightarrow> is_connected (run_ops lib ops (init srv prt pw))
            \<and> close_raises lib (run_ops lib ops (init srv prt pw))"
    by (auto simp: disconnect_def is_connected_def close_raises_def invoke_def log_to_def
        split: prod.splits sum.splits)
next
  assume "x \<noteq> Connect \<and> x \<noteq> Disconnect"
  then have "keeps (run_ops lib ops (init srv prt pw))
               (apply_op lib x (run_ops lib ops (init srv prt pw)))"
    by (simp add: keeps_apply_op)
  then show "is_connected (apply_op lib x (run_ops lib ops (init srv prt pw)))
          = is_connected (run_ops lib ops (init srv prt pw))"
    by (rule keeps_is_connected)
qed

text \<open>
  A \<open>connect\<close> that returns and one that raises \<open>ConnectionError\<close>; after \<open>connect\<close> and
  a command the service is connected, and a \<open>disconnect\<close> ends that.
\<close>

theorem is_connected_after_ops_witness:
  "fst (connect (fake_lib 0) (run_ops (fake_lib 0) [] (init ''127.0.0.1'' 25575 ''Hatsune_Miku'')))
     = Inr True
   \<and> is_connected (snd (connect (fake_lib 0)
        (run_ops (fake_lib 0) [] (init ''127.0.0.1'' 25575 ''Hatsune_Miku''))))
   \<and> fst (connect (fake_lib 0) (run_ops (fake_lib 0) [] (init ''127.0.0.1'' 25575 ''guess'')))
     = Inl (Exn ''ConnectionError'' ''Failed to connect to RCON server: wrong password'')
   \<and> \<not> is_connected (snd (connect (fake_lib 0)
        (run_ops (fake_lib 0) [] (init ''127.0.0.1'' 25575 ''guess''))))
   \<and> (Send_command ''list'' \<noteq> Connect \<and> Send_command ''list'' \<noteq> Disconnect)
   \<and> is_connected (apply_op (fake_lib 0) (Send_command ''list'')
        (run_ops (fake_lib 0) [Connect] (init ''127.0.0.1'' 25575 ''Hatsune_Miku'')))
   \<and> \<not> is_connected (snd (disconnect (fake_lib 0)
        (run_ops (fake_lib 0) [Connect] (init ''127.0.0.1'' 25575 ''Hatsune_Miku''))))"
  using is_connected_after_ops
    [of "''127.0.0.1''" 25575 "''Hatsune_Miku''" "fake_lib 0" "[]" True
        "Exn ''ConnectionError'' []" "Send_command ''list''"]
    is_connected_after_ops
    [of "''127.0.0.1''" 25575 "''guess''" "fake_lib 0" "[]" True
        "Exn ''ConnectionError'' ''Failed to connect to RCON server: wrong password''"
        "Send_command ''list''"]
    is_connected_after_ops
    [of "''127.0.0.1''" 25575 "''Hatsune_Miku''" "fake_lib 0" "[Connect]" True
        "Exn ''ConnectionError'' []" "Send_command ''list''"]
  by (auto simp: fake_connect_ok fake_connect_wrong fake_ready_connected fake_close_raises)

text \<open>
  The claim as stated fails after a \<open>disconnect\<close> whose \<open>close()\<close> raised:
  \<open>is_connected()\<close> is still true.
\<close>

theorem is_connected_after_disconnect_counterexample:
  "is_connected (run_ops (fake_lib 1) [Connect, Disconnect]
     (init ''127.0.0.1'' 25575 ''Hatsune_Miku''))"
  by (simp add: fake_connect_ok fake_disconnect_raising fake_flags)

text \<open>
  C7 (as amended).  Every operation of the service, and every sequence of operations,
  leaves the \<open>server\<close>, \<open>port\<close> and \<open>password\<close> fields as they were; so do the operations
  of the minimal service.  No operation other than \<open>connect\<close> reads the password: run on the
  same service with another password it does the same, log included.  \<open>connect\<close> hands the
  password to the client's \<open>login\<close> and, where the port can be formatted, logs one record,
  made of the server, the port and, on failure, the text of the exception it caught; the
  password is in that record only if the library put it into the text of its exception.
\<close>

theorem credentials_unchanged:
  "server (apply_op lib x s) = server s \<and> port (apply_op lib x s) = port s
   \<and> password (apply_op lib x s) = password s
   \<and> server (run_ops lib xs s) = server s \<and> port (run_ops lib xs s) = port s
   \<and> password (run_ops lib xs s) = password s
   \<and> m_server (min_apply_op lib y m) = m_server m \<and> m_port (min_apply_op lib y m) = m_port m
   \<and> m_password (min_apply_op lib y m) = m_password m
   \<and> (x \<noteq> Connect \<longrightarrow>
        apply_op lib x (with_password p s) = with_password p (apply_op lib x s))
   \<and> (str_int (port s) = Inr pt \<longrightarrow>
        logged (apply_op lib Connect s) =
          logged s @
            [case library_failure lib s of
               None \<Rightarrow> (INFO, ''Successfully connected to '' @ server s @ '':'' @ pt)
             | Some e \<Rightarrow>
                 (ERROR, ''Failed to connect to '' @ server s @ '':'' @ pt @ '': ''
                           @ exn_text e)])"
  using creds_apply_op [of lib x s] creds_run_ops [of lib xs s] creds_min_apply_op [of lib y m]
    apply_op_pw [of x lib p s] connect_logged [of s pt lib]
  by simp

text \<open>
  A command run with one password and with another, and the record of a \<open>connect\<close> that
  the stand-in server refused.
\<close>

theorem credentials_unchanged_witness:
  "Send_command ''list'' \<noteq> Connect
   \<and> apply_op (fake_lib 0) (Send_command ''list'') (with_password ''other'' fake_ready) =
       with_password ''other'' (apply_op (fake_lib 0) (Send_command ''list'') fake_ready)
   \<and> str_int (port (init ''127.0.0.1'' 25575 ''guess'')) = Inr ''25575''
   \<and> logged (apply_op (fake_lib 0) Connect (init ''127.0.0.1'' 25575 ''guess'')) =
      [(ERROR, ''Failed to connect to 127.0.0.1:25575: wrong password'')]
   \<and> password (apply_op (fake_lib 0) Connect (init ''127.0.0.1'' 25575 ''guess'')) = ''guess''"
proof -
  have n: "Send_command ''list'' \<noteq> Connect"
    by simp
  have f: "str_int (port (init ''127.0.0.1'' 25575 ''guess'')) = Inr ''25575''"
    by (simp add: init_def str_int_25575)
  note a = credentials_unchanged
    [of "fake_lib 0" "Send_command ''list''" fake_ready "[]" Min_connect
        "min_init ''127.0.0.1'' 25575 ''guess''" "''other''" "''25575''"]
  note b = credentials_unchanged
    [of "fake_lib 0" Connect "init ''127.0.0.1'' 25575 ''guess''" "[]" Min_connect
        "min_init ''127.0.0.1'' 25575 ''guess''" "''other''" "''25575''"]
  from a n have "apply_op (fake_lib 0) (Send_command ''list'') (with_password ''other'' fake_ready) =
       with_password ''other'' (apply_op (fake_lib 0) (Send_command ''list'') fake_ready)"
    by blast
  moreover have "logged (apply_op (fake_lib 0) Connect (init ''127.0.0.1'' 25575 ''guess'')) =
      [(ERROR, ''Failed to connect to 127.0.0.1:25575: wrong password'')]"
    by (simp add: fake_connect_wrong)
  moreover from b have
    "password (apply_op (fake_lib 0) Connect (init ''127.0.0.1'' 25575 ''guess'')) = ''guess''"
    by (simp add: init_def)
  ultimately show ?thesis
    using n f by simp
qed

text \<open>
  The claim as stated fails with a library whose \<open>login\<close> names the rejected password in
  its exception: \<open>connect\<close> logs that text, and with it the password.
\<close>

theorem password_logged_counterexample:
  "logged (snd (connect echo_lib (init ''127.0.0.1'' 25575 ''hunter2''))) =
     [(ERROR, ''Failed to connect to 127.0.0.1:25575: wrong password: ''
                @ password (init ''127.0.0.1'' 25575 ''hunter2''))]
   \<and> password (init ''127.0.0.1'' 25575 ''hunter2'') = ''hunter2''"
  by (simp add: connect_def echo_lib_def fake_lib_def init_def invoke_def log_to_def
        str_int_25575 connect_failed_def)

text \<open>
  C6 (as amended).  Every convenience other than \<open>get_player_list\<close> and
  \<open>get_player_count\<close> is a text-formatting wrapper with no protocol logic of its own.
  Those built on \<open>send_command\<close> give, for all arguments and in every state, the result and
  the state of \<open>send_command\<close> on the command formatted from the arguments.  The others
  pass the guard of \<open>send_command\<close> and then make one call of a helper of the client with the
  formatted arguments (\<open>helper_outcome\<close>): they return its result, keep the client as the
  call leaves it and log nothing; so wherever that helper of the library is \<open>run\<close> on a
  command string, their result and their client are those of \<open>send_command\<close> on that
  string.  Where an integer argument has to be formatted by the service, this holds when
  \<open>str\<close> formats it.
\<close>

theorem conveniences_wrap_run:
  "save_all lib flush s = send_command lib (if flush then ''save-all flush'' else ''save-all'') s
   \<and> save_on lib s = send_command lib ''save-on'' s
   \<and> save_off lib s = send_command lib ''save-off'' s
   \<and> reload_server lib s = send_command lib ''reload'' s
   \<and> send_title lib player title subtitle s =
       send_command lib
         (''title '' @ player @ '' title '' @ text_component title ''gold'' @
          (if subtitle = [] then [] else '' '' @ text_component subtitle ''yellow'')) s
   \<and> get_server_version lib s = send_command lib ''version'' s
   \<and> get_tps lib s = send_command lib ''tps'' s
   \<and> execute_as_player lib player command s =
       send_command lib (''execute as '' @ player @ '' run '' @ command) s
   \<and> (str_int radius = Inr rt \<longrightarrow>
        set_spawn_protection lib radius s = send_command lib (''gamerule spawnRadius '' @ rt) s)
   \<and> (py_str v = Inr vt \<longrightarrow>
        set_gamerule lib rule v s = send_command lib (''gamerule '' @ rule @ '' '' @ lower vt) s)
   \<and> get_gamerule lib rule s = send_command lib (''gamerule '' @ rule) s
   \<and> kick_player lib player reason s =
       helper_outcome lib ''kick'' [AStr player, AStr reason] s
   \<and> ban_player lib player reason s = helper_outcome lib ''ban'' [AStr player, AStr reason] s
   \<and> pardon_player lib player s = helper_outcome lib ''pardon'' [AStr player] s
   \<and> op_player lib player s = helper_outcome lib ''op'' [AStr player] s
   \<and> deop_player lib player s = helper_outcome lib ''deop'' [AStr player] s
   \<and> whitelist_add lib player s =
       helper_outcome lib ''whitelist'' [AStr ''add'', AStr player] s
   \<and> whitelist_remove lib player s =
       helper_outcome lib ''whitelist'' [AStr ''remove'', AStr player] s
   \<and> whitelist_list lib s = helper_outcome lib ''whitelist'' [AStr ''list''] s
   \<and> whitelist_on lib s = helper_outcome lib ''whitelist'' [AStr ''on''] s
   \<and> whitelist_off lib s = helper_outcome lib ''whitelist'' [AStr ''off''] s
   \<and> whitelist_reload lib s = helper_outcome lib ''whitelist'' [AStr ''reload''] s
   \<and> stop_server lib s = helper_outcome lib ''stop'' [] s
   \<and> broadcast_message lib message s = helper_outcome lib ''say'' [AStr message] s
   \<and> tell_player lib player message s =
       helper_outcome lib ''tell'' [AStr player, AStr message] s
   \<and> (py_str time = Inr tt \<longrightarrow>
        set_time lib time s = helper_outcome lib ''time'' [AStr ''set'', AStr tt] s)
   \<and> (str_int amount = Inr at \<longrightarrow>
        add_time lib amount s = helper_outcome lib ''time'' [AStr ''add'', AStr at] s)
   \<and> get_time lib s = helper_outcome lib ''time'' [AStr ''query'', AStr ''gametime''] s
   \<and> set_weather lib weather duration s =
       helper_outcome lib ''weather'' [AStr weather, AInt duration] s
   \<and> set_difficulty lib difficulty s = helper_outcome lib ''difficulty'' [AStr difficulty] s
   \<and> set_gamemode lib player gamemode s =
       helper_outcome lib ''gamemode'' [AStr gamemode, AStr player] s
   \<and> teleport_player lib player px py pz s =
       helper_outcome lib ''tp'' [AStr player, AFloat px, AFloat py, AFloat pz] s
   \<and> teleport_player_to_player lib player target s =
       helper_outcome lib ''tp'' [AStr player, AStr target] s
   \<and> give_item lib player item count s =
       helper_outcome lib ''give'' [AStr player, AStr item, AInt count] s
   \<and> clear_player_inventory lib player oitem ocount s =
       helper_outcome lib ''clear''
         (if truthy_str oitem \<and> truthy_int ocount
          then [AStr player, AStr (the oitem), AInt (the ocount)]
          else if truthy_str oitem then [AStr player, AStr (the oitem)]
          else [AStr player]) s
   \<and> get_seed lib s = helper_outcome lib ''seed'' [] s
   \<and> ((\<forall>c. cl_command lib name args c = cl_run lib cmd c) \<longrightarrow>
        fst (helper_outcome lib name args s) = fst (send_command lib cmd s)
        \<and> client (snd (helper_outcome lib name args s)) = client (snd (send_command lib cmd s))
        \<and> logged (snd (helper_outcome lib name args s)) = logged s)"
  using helper_outcome_run [of lib name args cmd s]
  by (simp add: save_all_def save_on_def save_off_def reload_server_def send_title_def
        get_server_version_def get_tps_def execute_as_player_def set_spawn_protection_def
        set_gamerule_def get_gamerule_def guarded_send_command
        kick_player_def ban_player_def pardon_player_def op_player_def deop_player_def
        whitelist_add_def whitelist_remove_def whitelist_list_def whitelist_on_def
        whitelist_off_def whitelist_reload_def stop_server_def broadcast_message_def
        tell_player_def set_time_def add_time_def get_time_def set_weather_def
        set_difficulty_def set_gamemode_def teleport_player_def teleport_player_to_player_def
        give_item_def clear_player_inventory_def get_seed_def guarded_client_call)

text \<open>
  Setting a game rule to \<open>True\<close> and kicking a player on the stand-in server, whose
  \<open>kick\<close> is \<open>run\<close> on the command \<open>kick Steve Kicked by admin\<close>.
\<close>

theorem conveniences_wrap_run_witness:
  "py_str (VBool True) = Inr ''True''
   \<and> set_gamerule (fake_lib 0) ''keepInventory'' (VBool True)
       (snd (connect (fake_lib 0) (init ''127.0.0.1'' 25575 ''Hatsune_Miku''))) =
     send_command (fake_lib 0) ''gamerule keepInventory true''
       (snd (connect (fake_lib 0) (init ''127.0.0.1'' 25575 ''Hatsune_Miku'')))
   \<and> (\<forall>c. cl_command (fake_lib 0) ''kick'' [AStr ''Steve'', AStr ''Kicked by admin''] c =
           cl_run (fake_lib 0) ''kick Steve Kicked by admin'' c)
   \<and> fst (kick_player (fake_lib 0) ''Steve'' ''Kicked by admin''
       (snd (connect (fake_lib 0) (init ''127.0.0.1'' 25575 ''Hatsune_Miku'')))) =
     fst (send_command (fake_lib 0) ''kick Steve Kicked by admin''
       (snd (connect (fake_lib 0) (init ''127.0.0.1'' 25575 ''Hatsune_Miku''))))
   \<and> fst (kick_player (fake_lib 0) ''Steve'' ''Kicked by admin''
       (snd (connect (fake_lib 0) (init ''127.0.0.1'' 25575 ''Hatsune_Miku'')))) =
     Inr ''Executed: kick Steve Kicked by admin''"
proof -
  have v: "py_str (VBool True) = Inr ''True''"
    by simp
  have h: "\<forall>c. cl_command (fake_lib 0) ''kick'' [AStr ''Steve'', AStr ''Kicked by admin''] c =
           cl_run (fake_lib 0) ''kick Steve Kicked by admin'' c"
    by (simp add: fake_lib_def)
  note r = conveniences_wrap_run
    [where lib = "fake_lib 0"
       and s = "snd (connect (fake_lib 0) (init ''127.0.0.1'' 25575 ''Hatsune_Miku''))"
       and v = "VBool True" and vt = "''True''" and rule = "''keepInventory''"
       and player = "''Steve''" and reason = "''Kicked by admin''"
       and name = "''kick''" and args = "[AStr ''Steve'', AStr ''Kicked by admin'']"
       and cmd = "''kick Steve Kicked by admin''"]
  from r [THEN conjunct2, THEN conjunct2, THEN conjunct2, THEN conjunct2, THEN conjunct2,
          THEN conjunct2, THEN conjunct2, THEN conjunct2, THEN conjunct2, THEN conjunct1,
          THEN mp, OF v]
  have g: "set_gamerule (fake_lib 0) ''keepInventory'' (VBool True)
       (snd (connect (fake_lib 0) (init ''127.0.0.1'' 25575 ''Hatsune_Miku''))) =
     send_command (fake_lib 0) (''gamerule '' @ ''keepInventory'' @ '' '' @ lower ''True'')
       (snd (connect (fake_lib 0) (init ''127.0.0.1'' 25575 ''Hatsune_Miku'')))"
    .
  note w = r [THEN conjunct2, THEN conjunct2, THEN conjunct2, THEN conjunct2, THEN conjunct2,
          THEN conjunct2, THEN conjunct2, THEN conjunct2, THEN conjunct2, THEN conjunct2,
          THEN conjunct2, THEN conjunct1]
  note l = r [THEN conjunct2, THEN conjunct2, THEN conjunct2, THEN conjunct2, THEN conjunct2,
          THEN conjunct2, THEN conjunct2, THEN conjunct2, THEN conjunct2, THEN conjunct2,
          THEN conjunct2, THEN conjunct2, THEN conjunct2, THEN conjunct2, THEN conjunct2,
          THEN conjunct2, THEN conjunct2, THEN conjunct2, THEN conjunct2, THEN conjunct2,
          THEN conjunct2, THEN conjunct2, THEN conjunct2, THEN conjunct2, THEN conjunct2,
          THEN conjunct2, THEN conjunct2, THEN conjunct2, THEN conjunct2, THEN conjunct2,
          THEN conjunct2, THEN conjunct2, THEN conjunct2, THEN conjunct2, THEN conjunct2,
          THEN conjunct2, THEN mp, OF h, THEN conjunct1]
  have k: "fst (kick_player (fake_lib 0) ''Steve'' ''Kicked by admin''
       (snd (connect (fake_lib 0) (init ''127.0.0.1'' 25575 ''Hatsune_Miku'')))) =
     fst (send_command (fake_lib 0) ''kick Steve Kicked by admin''
       (snd (connect (fake_lib 0) (init ''127.0.0.1'' 25575 ''Hatsune_Miku''))))"
    unfolding w by (rule l)
  have e: "fst (send_command (fake_lib 0) ''kick Steve Kicked by admin'' fake_ready) =
     Inr ''Executed: kick Steve Kicked by admin''"
    by (simp add: send_command_def ensure_connected_iff fake_ready_connected invoke_Some fake_run
          split: sum.splits)
  from v h g k e show ?thesis
    by (simp add: lower_True fake_connect_ok)
qed

text \<open>
  The claim as stated fails for \<open>get_player_list\<close> and \<open>get_player_count\<close>: what they
  return is not the text of a command but the list of names, and a pair of numbers, read
  from the object that the client's \<open>list\<close> returns.
\<close>

theorem player_list_not_text_counterexample:
  "fst (get_player_list (fake_lib 0)
       (snd (connect (fake_lib 0) (init ''127.0.0.1'' 25575 ''Hatsune_Miku'')))) =
     Inr [''Steve'', ''Alex'']
   \<and> fst (get_player_count (fake_lib 0)
       (snd (connect (fake_lib 0) (init ''127.0.0.1'' 25575 ''Hatsune_Miku'')))) = Inr (2, 20)
   \<and> fst (send_command (fake_lib 0) ''list''
       (snd (connect (fake_lib 0) (init ''127.0.0.1'' 25575 ''Hatsune_Miku'')))) =
     Inr ''Executed: list''"
proof -
  have l: "fst (get_player_list (fake_lib 0) fake_ready) = Inr [''Steve'', ''Alex'']"
    by (simp add: get_player_list_def guarded_connected fake_ready_connected invoke_Some
          fake_list)
  have c: "fst (get_player_count (fake_lib 0) fake_ready) = Inr (2, 20)"
    by (simp add: get_player_count_def guarded_connected fake_ready_connected invoke_Some
          fake_list)
  have r: "fst (send_command (fake_lib 0) ''list'' fake_ready) = Inr ''Executed: list''"
    by (simp add: send_command_def ensure_connected_iff fake_ready_connected invoke_Some fake_run
          split: sum.splits)
  from l c r show ?thesis
    by (simp add: fake_connect_ok)
qed

text \<open>
  C8 (as amended).  Round trip of the frame codec: for every request id, packet type and
  payload of at most the protocol maximum, \<open>encode\<close> succeeds and \<open>tryDecode\<close> of the
  encoding, also when more bytes follow it in the buffer, consumes exactly the encoding and
  yields a packet with the same request id and payload and with a packet type of the same
  wire code.  The packet type is the original one for \<open>Auth\<close> and \<open>Command\<close>, and for
  \<open>CommandResponse\<close> when its code is neither 2 nor 3; an \<open>AuthResponse\<close> comes back as
  the member the decoder gives to the code 2 that it shares with \<open>Command\<close>.
\<close>

theorem codec_roundtrip:
  "length pl \<le> max_payload \<Longrightarrow>
   (case encode rc rid ty pl of
      Inl e \<Rightarrow> False
    | Inr bytes \<Rightarrow>
        tryDecode rc bytes =
          Decoded \<lparr>frame_length = of_nat (length pl + 10), requestId = rid,
                   packetType = the (type_of_code rc (type_code rc ty)),
                   payload = pl, padding = 0\<rparr> (length bytes)
        \<and> tryDecode rc (bytes @ rest) =
          Decoded \<lparr>frame_length = of_nat (length pl + 10), requestId = rid,
                   packetType = the (type_of_code rc (type_code rc ty)),
                   payload = pl, padding = 0\<rparr> (length bytes))
   \<and> type_code rc (the (type_of_code rc (type_code rc ty))) = type_code rc ty
   \<and> (ty = Auth \<or> ty = Command \<or> ty = CommandResponse \<and> rc \<noteq> 2 \<and> rc \<noteq> 3 \<longrightarrow>
        the (type_of_code rc (type_code rc ty)) = ty)"
  using decode_frame [of pl rc rid ty "[]"] decode_frame [of pl rc rid ty rest]
    decoded_type_same [of ty rc]
  by (simp add: encode_def length_le32 type_code_decoded)

text \<open>The command \<open>list\<close> with request id 7; 0 stands for \<open>CommandResponse\<close>.\<close>

theorem codec_roundtrip_witness:
  "length [108, 105, 115, 116 :: byte] \<le> max_payload
   \<and> encode 0 7 Command [108, 105, 115, 116] =
       Inr [14, 0, 0, 0, 7, 0, 0, 0, 2, 0, 0, 0, 108, 105, 115, 116, 0, 0]
   \<and> tryDecode 0 [14, 0, 0, 0, 7, 0, 0, 0, 2, 0, 0, 0, 108, 105, 115, 116, 0, 0] =
       Decoded \<lparr>frame_length = 14, requestId = 7, packetType = Command,
                payload = [108, 105, 115, 116], padding = 0\<rparr> 18"
proof -
  have m: "length [108, 105, 115, 116 :: byte] \<le> max_payload"
    by (simp add: max_payload_def)
  have e: "encode 0 7 Command [108, 105, 115, 116] =
       Inr [14, 0, 0, 0, 7, 0, 0, 0, 2, 0, 0, 0, 108, 105, 115, 116, 0, 0]"
    by (simp add: encode_def max_payload_def le32_def)
  from codec_roundtrip [OF m, of 0 7 Command "[]"] e m show ?thesis
    by (simp add: type_of_code_def)
qed

text \<open>
  The claim as stated fails for \<open>AuthResponse\<close>.  Its encoding is, byte for byte, the
  encoding of the \<open>Command\<close> packet with the same request id and payload, so no decoder can
  return the original for both; this one returns \<open>Command\<close>.
\<close>

theorem codec_roundtrip_counterexample:
  "encode 0 7 AuthResponse [108, 105, 115, 116] =
     Inr [14, 0, 0, 0, 7, 0, 0, 0, 2, 0, 0, 0, 108, 105, 115, 116, 0, 0]
   \<and> encode 0 7 AuthResponse [108, 105, 115, 116] = encode 0 7 Command [108, 105, 115, 116]
   \<and> tryDecode 0 [14, 0, 0, 0, 7, 0, 0, 0, 2, 0, 0, 0, 108, 105, 115, 116, 0, 0] =
       Decoded \<lparr>frame_length = 14, requestId = 7, packetType = Command,
                payload = [108, 105, 115, 116], padding = 0\<rparr> 18
   \<and> Command \<noteq> AuthResponse"
proof -
  have m: "length [108, 105, 115, 116 :: byte] \<le> max_payload"
    by (simp add: max_payload_def)
  have e: "encode 0 7 AuthResponse [108, 105, 115, 116] =
       Inr [14, 0, 0, 0, 7, 0, 0, 0, 2, 0, 0, 0, 108, 105, 115, 116, 0, 0]"
    by (simp add: encode_def max_payload_def le32_def)
  have c: "encode 0 7 Command [108, 105, 115, 116] =
       Inr [14, 0, 0, 0, 7, 0, 0, 0, 2, 0, 0, 0, 108, 105, 115, 116, 0, 0]"
    by (simp add: encode_def max_payload_def le32_def)
  have d: "tryDecode 0 [14, 0, 0, 0, 7, 0, 0, 0, 2, 0, 0, 0, 108, 105, 115, 116, 0, 0] =
       Decoded \<lparr>frame_length = 14, requestId = 7, packetType = Command,
                payload = [108, 105, 115, 116], padding = 0\<rparr> 18"
    using decode_frame [OF m, of 0 7 AuthResponse "[]"]
    by (simp add: le32_def type_of_code_def)
  from e c d show ?thesis
    by simp
qed

end
